theory Spec2Isabelle
  imports Complex_Main "HOL-Library.Word" "HOL-Library.Monad_Syntax"
begin

unbundle bit_operations_syntax

section \<open>Scalars and the packed word array\<close>

text \<open>
  Slang's \<open>uint\<close> is a 32-bit word. A \<open>float\<close> is kept as its IEEE-754 binary32 bit
  pattern, so that \<open>asuint\<close> and \<open>asfloat\<close> (bit reinterpretations) are the identity
  on it. \<open>PackedHitInfo\<close> is \<open>uint2\<close> with compression and \<open>uint4\<close> without: a list of
  words of that length. Reading or writing a component the vector does not have is no
  value of the program; the model makes it \<open>None\<close>.
\<close>

type_synonym u32 = "32 word"
type_synonym float = "32 word"
type_synonym float2 = "float \<times> float"
type_synonym PackedHitInfo = "u32 list"

definition asuint :: "float \<Rightarrow> u32" where
  "asuint f = f"

definition asfloat :: "u32 \<Rightarrow> float" where
  "asfloat w = w"

definition rd :: "PackedHitInfo \<Rightarrow> nat \<Rightarrow> u32 option" where
  "rd packed i = (if i < length packed then Some (packed ! i) else None)"

definition wr :: "PackedHitInfo \<Rightarrow> nat \<Rightarrow> u32 \<Rightarrow> PackedHitInfo option" where
  "wr packed i v = (if i < length packed then Some (packed[i := v]) else None)"

text \<open>
  \<open>x << n\<close> and \<open>x >> n\<close> on \<open>uint\<close>, the amount a \<open>uint\<close> too. For an amount below 32
  these are the shifts of every target. For 32 and more the targets differ (the amount
  is masked, or the result is unspecified); the model shifts everything out there.
\<close>

definition shl :: "u32 \<Rightarrow> u32 \<Rightarrow> u32" where
  "shl x n = push_bit (unat n) x"

definition shr :: "u32 \<Rightarrow> u32 \<Rightarrow> u32" where
  "shr x n = drop_bit (unat n) x"

section \<open>Configuration\<close>

text \<open>
  Modelled from the spec: the enum \<open>HitType\<close> is declared in \<open>Scene.HitInfoType\<close>, which
  is not among the sources. The spec lists None, Triangle, DisplacedTriangle, Curve,
  SDFGrid, Volume, with None the zero value. The code converts with \<open>uint(type)\<close> and
  \<open>HitType(x)\<close>, so a hit type is its underlying 32-bit value.
\<close>

type_synonym HitType = u32

definition HitType_None :: HitType where
  "HitType_None = 0"

definition HitType_Triangle :: HitType where
  "HitType_Triangle = 1"

definition HitType_DisplacedTriangle :: HitType where
  "HitType_DisplacedTriangle = 2"

definition HitType_Curve :: HitType where
  "HitType_Curve = 3"

definition HitType_SDFGrid :: HitType where
  "HitType_SDFGrid = 4"

definition HitType_Volume :: HitType where
  "HitType_Volume = 5"

text \<open>
  Modelled from the spec: \<open>SCENE_HAS_GEOMETRY_TYPE\<close> and the geometry type constants
  come from \<open>Scene/SceneDefines.slangh\<close>, which is not among the sources; the spec calls
  them per-geometry-type enable flags. The same holds for the constants of
  \<open>SCENE_SDF_GRID_IMPLEMENTATION\<close>, the active SDF grid backend.
\<close>

datatype GeometryType =
    GEOMETRY_TYPE_TRIANGLE_MESH
  | GEOMETRY_TYPE_DISPLACED_TRIANGLE_MESH
  | GEOMETRY_TYPE_CURVE
  | GEOMETRY_TYPE_SDF_GRID

datatype SDFGridImplementation =
    SCENE_SDF_GRID_IMPLEMENTATION_NDSDF
  | SCENE_SDF_GRID_IMPLEMENTATION_SVS
  | SCENE_SDF_GRID_IMPLEMENTATION_SBS
  | SCENE_SDF_GRID_IMPLEMENTATION_SVO

text \<open>The preprocessor defines the host sets, fixed for a session.\<close>

record config =
  HIT_INFO_DEFINES :: bool
  HIT_INFO_USE_COMPRESSION :: bool
  HIT_INFO_TYPE_BITS :: u32
  HIT_INFO_INSTANCE_ID_BITS :: u32
  HIT_INFO_PRIMITIVE_INDEX_BITS :: u32
  SCENE_GEOMETRY_TYPES :: "GeometryType set"
  SCENE_SDF_GRID_IMPLEMENTATION :: SDFGridImplementation

definition SCENE_HAS_GEOMETRY_TYPE :: "config \<Rightarrow> GeometryType \<Rightarrow> bool" where
  "SCENE_HAS_GEOMETRY_TYPE c ty = (ty \<in> SCENE_GEOMETRY_TYPES c)"

definition kTypeBits :: "config \<Rightarrow> u32" where
  "kTypeBits c = (if HIT_INFO_DEFINES c then HIT_INFO_TYPE_BITS c else 1)"

definition kInstanceIDBits :: "config \<Rightarrow> u32" where
  "kInstanceIDBits c = (if HIT_INFO_DEFINES c then HIT_INFO_INSTANCE_ID_BITS c else 1)"

definition kPrimitiveIndexBits :: "config \<Rightarrow> u32" where
  "kPrimitiveIndexBits c = (if HIT_INFO_DEFINES c then HIT_INFO_PRIMITIVE_INDEX_BITS c else 1)"

definition kTypeOffset :: "config \<Rightarrow> u32" where
  "kTypeOffset c = 32 - kTypeBits c"

definition kInstanceIDOffset :: "config \<Rightarrow> u32" where
  "kInstanceIDOffset c = kPrimitiveIndexBits c"

definition kHeaderBits :: "config \<Rightarrow> u32" where
  "kHeaderBits c = kTypeBits c + kInstanceIDBits c + kPrimitiveIndexBits c"

definition PackedHitInfo_size :: "config \<Rightarrow> nat" where
  "PackedHitInfo_size c = (if HIT_INFO_USE_COMPRESSION c then 2 else 4)"

text \<open>\<open>PackedHitInfo packed = {}\<close>: every word zero.\<close>

definition PackedHitInfo_zero :: "config \<Rightarrow> PackedHitInfo" where
  "PackedHitInfo_zero c = (if HIT_INFO_USE_COMPRESSION c then [0, 0] else [0, 0, 0, 0])"

section \<open>The header codec\<close>

text \<open>
  Modelled from the spec: \<open>GeometryInstanceID\<close> is declared in \<open>Scene.SceneTypes\<close>, which
  is not among the sources; the code reads and writes its one field \<open>index\<close>, a \<open>uint\<close>.
\<close>

record GeometryInstanceID =
  index :: u32

text \<open>\<open>HitInfo::packHeader(packed, type)\<close>, the overload that stores the tag alone.\<close>

definition packHeader_type :: "config \<Rightarrow> PackedHitInfo \<Rightarrow> HitType \<Rightarrow> PackedHitInfo option" where
  "packHeader_type c packed type = wr packed 0 (shl type (kTypeOffset c))"

definition packHeader ::
  "config \<Rightarrow> PackedHitInfo \<Rightarrow> HitType \<Rightarrow> GeometryInstanceID \<Rightarrow> u32 \<Rightarrow> PackedHitInfo option" where
  "packHeader c packed type instanceID primitiveIndex =
     (if kHeaderBits c \<le> 32 then
        wr packed 0
          (shl type (kTypeOffset c) OR shl (index instanceID) (kInstanceIDOffset c) OR primitiveIndex)
      else do {
        packed \<leftarrow> wr packed 0 (shl type (kTypeOffset c) OR index instanceID);
        wr packed 1 primitiveIndex
      })"

definition unpackHeader :: "config \<Rightarrow> PackedHitInfo \<Rightarrow> (GeometryInstanceID \<times> u32) option" where
  "unpackHeader c packed =
     (if kHeaderBits c \<le> 32 then do {
        w0 \<leftarrow> rd packed 0;
        Some (\<lparr>index = shr w0 (kInstanceIDOffset c) AND (shl 1 (kInstanceIDBits c) - 1)\<rparr>,
              w0 AND (shl 1 (kPrimitiveIndexBits c) - 1))
      }
      else do {
        w0 \<leftarrow> rd packed 0;
        w1 \<leftarrow> rd packed 1;
        Some (\<lparr>index = w0 AND (shl 1 (kInstanceIDBits c) - 1)\<rparr>, w1)
      })"

section \<open>Floating-point operations\<close>

text \<open>
  The codec computes with floats in three places: the 24-bit quantisation of the
  barycentrics of a displaced triangle, the half-float intrinsics \<open>f32tof16\<close> and
  \<open>f16tof32\<close>, and the 16-bit unorm helpers \<open>packUnorm2x16_unsafe\<close> and
  \<open>unpackUnorm2x16\<close> of \<open>Utils.Math.FormatConversion\<close>, which is not among the
  sources. The arithmetic of the target is a parameter of the model: a record of
  functions on bit patterns, passed to every codec that computes with floats.
  \<open>float_to_uint\<close> and \<open>uint_to_float\<close> are the conversions \<open>uint(f)\<close> and \<open>float(u)\<close>.
\<close>

record fpu =
  fmul :: "float \<Rightarrow> float \<Rightarrow> float"
  fadd :: "float \<Rightarrow> float \<Rightarrow> float"
  fdiv :: "float \<Rightarrow> float \<Rightarrow> float"
  ftrunc :: "float \<Rightarrow> float"
  float_to_uint :: "float \<Rightarrow> u32"
  uint_to_float :: "u32 \<Rightarrow> float"
  f32tof16 :: "float \<Rightarrow> u32"
  f16tof32 :: "u32 \<Rightarrow> float"
  packUnorm2x16_unsafe :: "float2 \<Rightarrow> u32"
  unpackUnorm2x16 :: "u32 \<Rightarrow> float2"

text \<open>The literals \<open>1.f\<close>, \<open>0.5f\<close> and \<open>16777215.f\<close> as binary32 bit patterns.\<close>

definition float_1 :: float where
  "float_1 = 1065353216"

definition float_0_5 :: float where
  "float_0_5 = 1056964608"

definition float_16777215 :: float where
  "float_16777215 = 1266679807"

section \<open>The typed hits\<close>

record GeometryHit =
  instanceID :: GeometryInstanceID
  primitiveIndex :: u32
  barycentrics :: float2

text \<open>\<open>this = {}\<close>: every field zero (the float 0.0 is the zero word).\<close>

definition GeometryHit_zero :: GeometryHit where
  "GeometryHit_zero = \<lparr>instanceID = \<lparr>index = 0\<rparr>, primitiveIndex = 0, barycentrics = (0, 0)\<rparr>"

subsection \<open>Triangle\<close>

type_synonym TriangleHit = GeometryHit

definition TriangleHit_init :: "fpu \<Rightarrow> config \<Rightarrow> PackedHitInfo \<Rightarrow> TriangleHit option" where
  "TriangleHit_init fp c packed =
     (if SCENE_HAS_GEOMETRY_TYPE c GEOMETRY_TYPE_TRIANGLE_MESH then do {
        (iid, pidx) \<leftarrow> unpackHeader c packed;
        (if HIT_INFO_USE_COMPRESSION c then do {
           w1 \<leftarrow> rd packed 1;
           Some \<lparr>instanceID = iid, primitiveIndex = pidx, barycentrics = unpackUnorm2x16 fp w1\<rparr>
         }
         else do {
           w2 \<leftarrow> rd packed 2;
           w3 \<leftarrow> rd packed 3;
           Some \<lparr>instanceID = iid, primitiveIndex = pidx, barycentrics = (asfloat w2, asfloat w3)\<rparr>
         })
      }
      else Some GeometryHit_zero)"

definition TriangleHit_pack :: "fpu \<Rightarrow> config \<Rightarrow> TriangleHit \<Rightarrow> PackedHitInfo option" where
  "TriangleHit_pack fp c hit =
     (if SCENE_HAS_GEOMETRY_TYPE c GEOMETRY_TYPE_TRIANGLE_MESH then do {
        packed \<leftarrow> packHeader c (PackedHitInfo_zero c) HitType_Triangle (instanceID hit) (primitiveIndex hit);
        (if HIT_INFO_USE_COMPRESSION c then
           wr packed 1 (packUnorm2x16_unsafe fp (barycentrics hit))
         else do {
           packed \<leftarrow> wr packed 2 (asuint (fst (barycentrics hit)));
           wr packed 3 (asuint (snd (barycentrics hit)))
         })
      }
      else Some (PackedHitInfo_zero c))"

subsection \<open>Displaced triangle\<close>

record DisplacedTriangleHit = GeometryHit +
  displacement :: float

definition DisplacedTriangleHit_zero :: DisplacedTriangleHit where
  "DisplacedTriangleHit_zero =
     \<lparr>instanceID = \<lparr>index = 0\<rparr>, primitiveIndex = 0, barycentrics = (0, 0), displacement = 0\<rparr>"

text \<open>
  \<open>const uint2 u = trunc(barycentrics * 16777215.f + 0.5f)\<close>, one component of it, and
  the factor \<open>1.f / 16777215\<close> of the decoder.
\<close>

definition quantize24 :: "fpu \<Rightarrow> float \<Rightarrow> u32" where
  "quantize24 fp v = float_to_uint fp (ftrunc fp (fadd fp (fmul fp v float_16777215) float_0_5))"

definition dequantize24 :: "fpu \<Rightarrow> u32 \<Rightarrow> float" where
  "dequantize24 fp u = fmul fp (uint_to_float fp u) (fdiv fp float_1 float_16777215)"

text \<open>
  The two payload words \<open>(u.x << 8) | (u.y >> 16)\<close> and \<open>(u.y << 16) | h\<close> from the
  quantised barycentrics and the half-float bits, and the decoder's \<open>ux\<close> and \<open>uy\<close> from
  the two words.
\<close>

definition DisplacedTriangleHit_payload :: "u32 \<times> u32 \<Rightarrow> u32 \<Rightarrow> u32 \<times> u32" where
  "DisplacedTriangleHit_payload u h = (shl (fst u) 8 OR shr (snd u) 16, shl (snd u) 16 OR h)"

definition DisplacedTriangleHit_unorms :: "u32 \<Rightarrow> u32 \<Rightarrow> u32 \<times> u32" where
  "DisplacedTriangleHit_unorms w2 w3 = (shr w2 8, shl (w2 AND 255) 16 OR shr w3 16)"

definition DisplacedTriangleHit_init ::
  "fpu \<Rightarrow> config \<Rightarrow> PackedHitInfo \<Rightarrow> DisplacedTriangleHit option" where
  "DisplacedTriangleHit_init fp c packed =
     (if SCENE_HAS_GEOMETRY_TYPE c GEOMETRY_TYPE_DISPLACED_TRIANGLE_MESH then do {
        (iid, pidx) \<leftarrow> unpackHeader c packed;
        w2 \<leftarrow> rd packed 2;
        w3 \<leftarrow> rd packed 3;
        let (ux, uy) = DisplacedTriangleHit_unorms w2 w3 in
        Some \<lparr>instanceID = iid, primitiveIndex = pidx,
              barycentrics = (dequantize24 fp ux, dequantize24 fp uy),
              displacement = f16tof32 fp w3\<rparr>
      }
      else Some DisplacedTriangleHit_zero)"

definition DisplacedTriangleHit_pack ::
  "fpu \<Rightarrow> config \<Rightarrow> DisplacedTriangleHit \<Rightarrow> PackedHitInfo option" where
  "DisplacedTriangleHit_pack fp c hit =
     (if SCENE_HAS_GEOMETRY_TYPE c GEOMETRY_TYPE_DISPLACED_TRIANGLE_MESH then do {
        packed \<leftarrow> packHeader c (PackedHitInfo_zero c) HitType_DisplacedTriangle
                    (instanceID hit) (primitiveIndex hit);
        let u = (quantize24 fp (fst (barycentrics hit)), quantize24 fp (snd (barycentrics hit)));
            (w2, w3) = DisplacedTriangleHit_payload u (f32tof16 fp (displacement hit)) in
        do {
          packed \<leftarrow> wr packed 2 w2;
          wr packed 3 w3
        }
      }
      else Some (PackedHitInfo_zero c))"

subsection \<open>Curve\<close>

type_synonym CurveHit = GeometryHit

definition CurveHit_init :: "config \<Rightarrow> PackedHitInfo \<Rightarrow> CurveHit option" where
  "CurveHit_init c packed =
     (if SCENE_HAS_GEOMETRY_TYPE c GEOMETRY_TYPE_CURVE then do {
        (iid, pidx) \<leftarrow> unpackHeader c packed;
        w2 \<leftarrow> rd packed 2;
        w3 \<leftarrow> rd packed 3;
        Some \<lparr>instanceID = iid, primitiveIndex = pidx, barycentrics = (asfloat w2, asfloat w3)\<rparr>
      }
      else Some GeometryHit_zero)"

definition CurveHit_pack :: "config \<Rightarrow> CurveHit \<Rightarrow> PackedHitInfo option" where
  "CurveHit_pack c hit =
     (if SCENE_HAS_GEOMETRY_TYPE c GEOMETRY_TYPE_CURVE then do {
        packed \<leftarrow> packHeader c (PackedHitInfo_zero c) HitType_Curve (instanceID hit) (primitiveIndex hit);
        packed \<leftarrow> wr packed 2 (asuint (fst (barycentrics hit)));
        wr packed 3 (asuint (snd (barycentrics hit)))
      }
      else Some (PackedHitInfo_zero c))"

subsection \<open>SDF grid\<close>

text \<open>
  Modelled from the spec: \<open>SDFGridHitData\<close> is declared in \<open>Scene.SDFs.SDFGridHitData\<close>,
  which is not among the sources. The spec gives it one of three shapes by the active
  backend: lod and hitT, primitiveID and hitT, or svoIndex and hitT. The record has the
  three integer fields side by side; only the field of the active backend is read or
  written, the other two stay zero.
\<close>

record SDFGridHitData =
  lod :: u32
  primitiveID :: u32
  svoIndex :: u32
  hitT :: float

record SDFGridHit =
  sdfInstanceID :: GeometryInstanceID
  hitData :: SDFGridHitData

definition SDFGridHit_zero :: SDFGridHit where
  "SDFGridHit_zero =
     \<lparr>sdfInstanceID = \<lparr>index = 0\<rparr>, hitData = \<lparr>lod = 0, primitiveID = 0, svoIndex = 0, hitT = 0\<rparr>\<rparr>"

definition SDFGridHit_init :: "config \<Rightarrow> PackedHitInfo \<Rightarrow> SDFGridHit option" where
  "SDFGridHit_init c packed =
     (if SCENE_HAS_GEOMETRY_TYPE c GEOMETRY_TYPE_SDF_GRID then do {
        (iid, primitiveData) \<leftarrow> unpackHeader c packed;
        w2 \<leftarrow> rd packed 2;
        Some \<lparr>sdfInstanceID = iid, hitData =
          (case SCENE_SDF_GRID_IMPLEMENTATION c of
             SCENE_SDF_GRID_IMPLEMENTATION_NDSDF \<Rightarrow>
               \<lparr>lod = primitiveData, primitiveID = 0, svoIndex = 0, hitT = asfloat w2\<rparr>
           | SCENE_SDF_GRID_IMPLEMENTATION_SVS \<Rightarrow>
               \<lparr>lod = 0, primitiveID = primitiveData, svoIndex = 0, hitT = asfloat w2\<rparr>
           | SCENE_SDF_GRID_IMPLEMENTATION_SBS \<Rightarrow>
               \<lparr>lod = 0, primitiveID = primitiveData, svoIndex = 0, hitT = asfloat w2\<rparr>
           | SCENE_SDF_GRID_IMPLEMENTATION_SVO \<Rightarrow>
               \<lparr>lod = 0, primitiveID = 0, svoIndex = primitiveData, hitT = asfloat w2\<rparr>)\<rparr>
      }
      else Some SDFGridHit_zero)"

definition SDFGridHit_primitiveData :: "config \<Rightarrow> SDFGridHit \<Rightarrow> u32" where
  "SDFGridHit_primitiveData c hit =
     (case SCENE_SDF_GRID_IMPLEMENTATION c of
        SCENE_SDF_GRID_IMPLEMENTATION_NDSDF \<Rightarrow> lod (hitData hit)
      | SCENE_SDF_GRID_IMPLEMENTATION_SVS \<Rightarrow> primitiveID (hitData hit)
      | SCENE_SDF_GRID_IMPLEMENTATION_SBS \<Rightarrow> primitiveID (hitData hit)
      | SCENE_SDF_GRID_IMPLEMENTATION_SVO \<Rightarrow> svoIndex (hitData hit))"

definition SDFGridHit_pack :: "config \<Rightarrow> SDFGridHit \<Rightarrow> PackedHitInfo option" where
  "SDFGridHit_pack c hit =
     (if SCENE_HAS_GEOMETRY_TYPE c GEOMETRY_TYPE_SDF_GRID then do {
        packed \<leftarrow> wr (PackedHitInfo_zero c) 2 (asuint (hitT (hitData hit)));
        packHeader c packed HitType_SDFGrid (sdfInstanceID hit) (SDFGridHit_primitiveData c hit)
      }
      else Some (PackedHitInfo_zero c))"

subsection \<open>Volume\<close>

text \<open>The fields \<open>t\<close> and \<open>g\<close> of \<open>VolumeHit\<close>.\<close>

record VolumeHit =
  vol_t :: float
  vol_g :: float

definition VolumeHit_init :: "fpu \<Rightarrow> config \<Rightarrow> PackedHitInfo \<Rightarrow> VolumeHit option" where
  "VolumeHit_init fp c packed =
     (if HIT_INFO_USE_COMPRESSION c then do {
        w1 \<leftarrow> rd packed 1;
        w0 \<leftarrow> rd packed 0;
        Some \<lparr>vol_t = asfloat w1, vol_g = f16tof32 fp (w0 AND 65535)\<rparr>
      }
      else do {
        w1 \<leftarrow> rd packed 1;
        w2 \<leftarrow> rd packed 2;
        Some \<lparr>vol_t = asfloat w1, vol_g = asfloat w2\<rparr>
      })"

definition VolumeHit_pack :: "fpu \<Rightarrow> config \<Rightarrow> VolumeHit \<Rightarrow> PackedHitInfo option" where
  "VolumeHit_pack fp c hit = do {
     packed \<leftarrow> packHeader_type c (PackedHitInfo_zero c) HitType_Volume;
     (if HIT_INFO_USE_COMPRESSION c then do {
        packed \<leftarrow> wr packed 1 (asuint (vol_t hit));
        w0 \<leftarrow> rd packed 0;
        wr packed 0 (w0 OR (f32tof16 fp (vol_g hit) AND 65535))
      }
      else do {
        packed \<leftarrow> wr packed 1 (asuint (vol_t hit));
        wr packed 2 (asuint (vol_g hit))
      })
   }"

section \<open>The polymorphic hit record\<close>

record HitInfo =
  data :: PackedHitInfo

text \<open>\<open>HitInfo::__init()\<close> and \<open>makeInvalidHit\<close>.\<close>

definition HitInfo_init :: "config \<Rightarrow> HitInfo" where
  "HitInfo_init c = \<lparr>data = PackedHitInfo_zero c\<rparr>"

definition makeInvalidHit :: "config \<Rightarrow> HitInfo" where
  "makeInvalidHit c = \<lparr>data = PackedHitInfo_zero c\<rparr>"

text \<open>\<open>HitInfo::__init(const PackedHitInfo packed)\<close> and \<open>unpackHitInfo\<close>.\<close>

definition HitInfo_init_packed :: "PackedHitInfo \<Rightarrow> HitInfo" where
  "HitInfo_init_packed packed = \<lparr>data = packed\<rparr>"

definition unpackHitInfo :: "PackedHitInfo \<Rightarrow> HitInfo" where
  "unpackHitInfo packedHitInfo = HitInfo_init_packed packedHitInfo"

text \<open>The constructors from a typed hit: \<open>data = hit.pack()\<close>.\<close>

definition HitInfo_init_TriangleHit :: "fpu \<Rightarrow> config \<Rightarrow> TriangleHit \<Rightarrow> HitInfo option" where
  "HitInfo_init_TriangleHit fp c triangleHit =
     do { packed \<leftarrow> TriangleHit_pack fp c triangleHit; Some \<lparr>data = packed\<rparr> }"

definition HitInfo_init_DisplacedTriangleHit ::
  "fpu \<Rightarrow> config \<Rightarrow> DisplacedTriangleHit \<Rightarrow> HitInfo option" where
  "HitInfo_init_DisplacedTriangleHit fp c displacedTriangleHit =
     do { packed \<leftarrow> DisplacedTriangleHit_pack fp c displacedTriangleHit; Some \<lparr>data = packed\<rparr> }"

definition HitInfo_init_CurveHit :: "config \<Rightarrow> CurveHit \<Rightarrow> HitInfo option" where
  "HitInfo_init_CurveHit c curveHit =
     do { packed \<leftarrow> CurveHit_pack c curveHit; Some \<lparr>data = packed\<rparr> }"

definition HitInfo_init_SDFGridHit :: "config \<Rightarrow> SDFGridHit \<Rightarrow> HitInfo option" where
  "HitInfo_init_SDFGridHit c sdfGridHit =
     do { packed \<leftarrow> SDFGridHit_pack c sdfGridHit; Some \<lparr>data = packed\<rparr> }"

definition HitInfo_init_VolumeHit :: "fpu \<Rightarrow> config \<Rightarrow> VolumeHit \<Rightarrow> HitInfo option" where
  "HitInfo_init_VolumeHit fp c volumeHit =
     do { packed \<leftarrow> VolumeHit_pack fp c volumeHit; Some \<lparr>data = packed\<rparr> }"

text \<open>The typed accessors: the variant's decoder on the stored words, whatever the tag.\<close>

definition getTriangleHit :: "fpu \<Rightarrow> config \<Rightarrow> HitInfo \<Rightarrow> TriangleHit option" where
  "getTriangleHit fp c h = TriangleHit_init fp c (data h)"

definition getDisplacedTriangleHit :: "fpu \<Rightarrow> config \<Rightarrow> HitInfo \<Rightarrow> DisplacedTriangleHit option" where
  "getDisplacedTriangleHit fp c h = DisplacedTriangleHit_init fp c (data h)"

definition getCurveHit :: "config \<Rightarrow> HitInfo \<Rightarrow> CurveHit option" where
  "getCurveHit c h = CurveHit_init c (data h)"

definition getSDFGridHit :: "config \<Rightarrow> HitInfo \<Rightarrow> SDFGridHit option" where
  "getSDFGridHit c h = SDFGridHit_init c (data h)"

definition getVolumeHit :: "fpu \<Rightarrow> config \<Rightarrow> HitInfo \<Rightarrow> VolumeHit option" where
  "getVolumeHit fp c h = VolumeHit_init fp c (data h)"

definition getType :: "config \<Rightarrow> HitInfo \<Rightarrow> HitType option" where
  "getType c h = do { w0 \<leftarrow> rd (data h) 0; Some (shr w0 (kTypeOffset c)) }"

definition isValid :: "config \<Rightarrow> HitInfo \<Rightarrow> bool option" where
  "isValid c h = do { ty \<leftarrow> getType c h; Some (ty \<noteq> HitType_None) }"

definition HitInfo_pack :: "HitInfo \<Rightarrow> PackedHitInfo" where
  "HitInfo_pack h = data h"

definition getInstanceID :: "config \<Rightarrow> HitInfo \<Rightarrow> GeometryInstanceID option" where
  "getInstanceID c h = do { (instanceID, primitiveIndex) \<leftarrow> unpackHeader c (data h); Some instanceID }"

definition getPrimitiveIndex :: "config \<Rightarrow> HitInfo \<Rightarrow> u32 option" where
  "getPrimitiveIndex c h = do { (instanceID, primitiveIndex) \<leftarrow> unpackHeader c (data h); Some primitiveIndex }"


section \<open>Configurations the properties speak about\<close>

text \<open>
  The widths for which the fields of the header do not overlap: the tag has at least one
  bit, the tag and the instance ID fit into word 0 together, and the header has at most
  64 bits. Every shift amount of the header codec is then below 32.
\<close>

definition header_fits :: "config \<Rightarrow> bool" where
  "header_fits c =
     (0 < kTypeBits c \<and>
      unat (kTypeBits c) + unat (kInstanceIDBits c) \<le> 32 \<and>
      unat (kTypeBits c) + unat (kInstanceIDBits c) + unat (kPrimitiveIndexBits c) \<le> 64)"

text \<open>Scenario A of the spec: 4 + 12 + 16 header bits, every geometry type enabled.\<close>

definition scenarioA :: config where
  "scenarioA = \<lparr>HIT_INFO_DEFINES = True, HIT_INFO_USE_COMPRESSION = False,
     HIT_INFO_TYPE_BITS = 4, HIT_INFO_INSTANCE_ID_BITS = 12, HIT_INFO_PRIMITIVE_INDEX_BITS = 16,
     SCENE_GEOMETRY_TYPES = UNIV,
     SCENE_SDF_GRID_IMPLEMENTATION = SCENE_SDF_GRID_IMPLEMENTATION_NDSDF\<rparr>"

text \<open>A 64-bit header whose instance ID field is wider than what word 0 has left.\<close>

definition wideInstanceIDs :: config where
  "wideInstanceIDs = \<lparr>HIT_INFO_DEFINES = True, HIT_INFO_USE_COMPRESSION = False,
     HIT_INFO_TYPE_BITS = 4, HIT_INFO_INSTANCE_ID_BITS = 30, HIT_INFO_PRIMITIVE_INDEX_BITS = 30,
     SCENE_GEOMETRY_TYPES = UNIV,
     SCENE_SDF_GRID_IMPLEMENTATION = SCENE_SDF_GRID_IMPLEMENTATION_NDSDF\<rparr>"

text \<open>A header of 4 + 20 + 32 bits: two words, the fields apart.\<close>

definition twoWordHeader :: config where
  "twoWordHeader = \<lparr>HIT_INFO_DEFINES = True, HIT_INFO_USE_COMPRESSION = False,
     HIT_INFO_TYPE_BITS = 4, HIT_INFO_INSTANCE_ID_BITS = 20, HIT_INFO_PRIMITIVE_INDEX_BITS = 32,
     SCENE_GEOMETRY_TYPES = UNIV,
     SCENE_SDF_GRID_IMPLEMENTATION = SCENE_SDF_GRID_IMPLEMENTATION_NDSDF\<rparr>"

text \<open>Compression together with curves, and a scene with no geometry type enabled.\<close>

definition compressedCurves :: config where
  "compressedCurves = \<lparr>HIT_INFO_DEFINES = True, HIT_INFO_USE_COMPRESSION = True,
     HIT_INFO_TYPE_BITS = 4, HIT_INFO_INSTANCE_ID_BITS = 12, HIT_INFO_PRIMITIVE_INDEX_BITS = 16,
     SCENE_GEOMETRY_TYPES = {GEOMETRY_TYPE_TRIANGLE_MESH, GEOMETRY_TYPE_CURVE},
     SCENE_SDF_GRID_IMPLEMENTATION = SCENE_SDF_GRID_IMPLEMENTATION_NDSDF\<rparr>"

definition noGeometry :: config where
  "noGeometry = \<lparr>HIT_INFO_DEFINES = True, HIT_INFO_USE_COMPRESSION = False,
     HIT_INFO_TYPE_BITS = 4, HIT_INFO_INSTANCE_ID_BITS = 12, HIT_INFO_PRIMITIVE_INDEX_BITS = 16,
     SCENE_GEOMETRY_TYPES = {},
     SCENE_SDF_GRID_IMPLEMENTATION = SCENE_SDF_GRID_IMPLEMENTATION_NDSDF\<rparr>"

text \<open>The widths the code takes when the host has not set \<open>HIT_INFO_DEFINES\<close>.\<close>

definition noDefines :: config where
  "noDefines = \<lparr>HIT_INFO_DEFINES = False, HIT_INFO_USE_COMPRESSION = False,
     HIT_INFO_TYPE_BITS = 0, HIT_INFO_INSTANCE_ID_BITS = 0, HIT_INFO_PRIMITIVE_INDEX_BITS = 0,
     SCENE_GEOMETRY_TYPES = UNIV,
     SCENE_SDF_GRID_IMPLEMENTATION = SCENE_SDF_GRID_IMPLEMENTATION_NDSDF\<rparr>"

text \<open>
  Example hits. The floats are bit patterns: 0.25 is 1048576000, 0.75 is 1061158912,
  1.5 is 1069547520, 10.0 is 1092616192 and 0.3 is 1050253722.
\<close>

definition exampleTriangle :: TriangleHit where
  "exampleTriangle =
     \<lparr>instanceID = \<lparr>index = 5\<rparr>, primitiveIndex = 7, barycentrics = (1048576000, 1061158912)\<rparr>"

definition exampleDisplaced :: DisplacedTriangleHit where
  "exampleDisplaced =
     \<lparr>instanceID = \<lparr>index = 5\<rparr>, primitiveIndex = 7, barycentrics = (1048576000, 1061158912),
      displacement = 1069547520\<rparr>"

definition exampleSDFGrid :: SDFGridHit where
  "exampleSDFGrid =
     \<lparr>sdfInstanceID = \<lparr>index = 5\<rparr>,
      hitData = \<lparr>lod = 3, primitiveID = 0, svoIndex = 0, hitT = 1092616192\<rparr>\<rparr>"

definition exampleVolume :: VolumeHit where
  "exampleVolume = \<lparr>vol_t = 1092616192, vol_g = 1050253722\<rparr>"

text \<open>An SDF grid hit whose instance ID has bit 29 set: below 2^30.\<close>

definition wideSDFGrid :: SDFGridHit where
  "wideSDFGrid =
     \<lparr>sdfInstanceID = \<lparr>index = 536870912\<rparr>,
      hitData = \<lparr>lod = 0, primitiveID = 0, svoIndex = 0, hitT = 1092616192\<rparr>\<rparr>"

section \<open>Properties\<close>

text \<open>The definitions to unfold when a codec runs, and those of the examples.\<close>

lemmas codec_defs =
  TriangleHit_pack_def TriangleHit_init_def DisplacedTriangleHit_pack_def
  DisplacedTriangleHit_init_def CurveHit_pack_def CurveHit_init_def SDFGridHit_pack_def
  SDFGridHit_init_def VolumeHit_pack_def VolumeHit_init_def packHeader_def packHeader_type_def
  unpackHeader_def PackedHitInfo_zero_def wr_def rd_def

lemmas hitinfo_defs =
  HitInfo_init_TriangleHit_def HitInfo_init_DisplacedTriangleHit_def HitInfo_init_CurveHit_def
  HitInfo_init_SDFGridHit_def HitInfo_init_VolumeHit_def getType_def

lemmas example_defs =
  scenarioA_def twoWordHeader_def compressedCurves_def noDefines_def wideInstanceIDs_def
  exampleTriangle_def
  exampleDisplaced_def exampleSDFGrid_def exampleVolume_def wideSDFGrid_def
  SCENE_HAS_GEOMETRY_TYPE_def kTypeBits_def kInstanceIDBits_def kPrimitiveIndexBits_def
  HitType_Triangle_def HitType_DisplacedTriangle_def HitType_Curve_def HitType_SDFGrid_def
  HitType_Volume_def SDFGridHit_primitiveData_def

lemma length_PackedHitInfo_zero: "length (PackedHitInfo_zero c) = PackedHitInfo_size c"
  by (simp add: PackedHitInfo_zero_def PackedHitInfo_size_def)

lemma shl_1_minus_1: "shl 1 n - 1 = mask (unat n)"
  by (simp add: shl_def mask_eq_exp_minus_1)

lemma fits_take_bit: "unat (w :: u32) < 2 ^ n \<Longrightarrow> take_bit n w = w"
  by (metis take_bit_nat_eq_self_iff unsigned_take_bit_eq word_unat_eq_iff)

lemma fits_bit: "unat (w :: u32) < 2 ^ n \<Longrightarrow> bit w k \<Longrightarrow> k < n"
  by (metis fits_take_bit bit_take_bit_iff)

lemma hdr32_iid:
  fixes ty iid pidx :: u32
  assumes "t + i + p \<le> 32" "unat iid < 2 ^ i" "unat pidx < 2 ^ p"
  shows "drop_bit p (push_bit (32 - t) ty OR push_bit p iid OR pidx) AND mask i = iid"
  apply (rule bit_word_eqI)
  using assms
  apply (auto simp add: bit_simps dest: fits_bit)
  done

lemma hdr32_pidx:
  fixes ty iid pidx :: u32
  assumes "t + i + p \<le> 32" "unat iid < 2 ^ i" "unat pidx < 2 ^ p"
  shows "(push_bit (32 - t) ty OR push_bit p iid OR pidx) AND mask p = pidx"
  apply (rule bit_word_eqI)
  using assms
  apply (auto simp add: bit_simps dest: fits_bit)
  done

lemma hdr64_iid:
  fixes ty iid :: u32
  assumes "t + i \<le> 32" "unat iid < 2 ^ i"
  shows "(push_bit (32 - t) ty OR iid) AND mask i = iid"
  apply (rule bit_word_eqI)
  using assms
  apply (auto simp add: bit_simps dest: fits_bit)
  done

lemma unat_kTypeOffset:
  assumes "unat (kTypeBits c) \<le> 32"
  shows "unat (kTypeOffset c) = 32 - unat (kTypeBits c)"
proof -
  have "kTypeBits c \<le> 32" using assms by (simp add: word_le_nat_alt)
  then show ?thesis by (simp add: kTypeOffset_def unat_sub)
qed

lemma unat_kHeaderBits:
  assumes "unat (kTypeBits c) + unat (kInstanceIDBits c) + unat (kPrimitiveIndexBits c) \<le> 64"
  shows "unat (kHeaderBits c) = unat (kTypeBits c) + unat (kInstanceIDBits c) + unat (kPrimitiveIndexBits c)"
  using assms by (simp add: kHeaderBits_def unat_word_ariths)

lemma kHeaderBits_le_32:
  assumes "unat (kTypeBits c) + unat (kInstanceIDBits c) + unat (kPrimitiveIndexBits c) \<le> 64"
  shows "kHeaderBits c \<le> 32 \<longleftrightarrow> unat (kTypeBits c) + unat (kInstanceIDBits c) + unat (kPrimitiveIndexBits c) \<le> 32"
  using unat_kHeaderBits [OF assms] by (simp add: word_le_nat_alt)

lemma size_cases: "PackedHitInfo_size c = 2 \<or> PackedHitInfo_size c = 4"
  by (simp add: PackedHitInfo_size_def)

text \<open>
  C1 (as amended). For every configuration with a tag of at least one bit, with
  typeBits + instanceIDBits \<le> 32 and headerBits \<le> 64, for every hit type, every
  instanceID below 2^instanceIDBits and every primitiveIndex below 2^primitiveIndexBits,
  unpacking the packed header gives back exactly that instanceID and primitiveIndex, in
  the branch headerBits \<le> 32 and in the branch headerBits > 32.
\<close>

theorem unpackHeader_packHeader:
  assumes fits: "header_fits c"
    and len: "length packed = PackedHitInfo_size c"
    and iid: "unat (index instID) < 2 ^ unat (kInstanceIDBits c)"
    and pidx: "unat primIdx < 2 ^ unat (kPrimitiveIndexBits c)"
  shows "(packHeader c packed type instID primIdx \<bind> unpackHeader c)
           = Some (instID, primIdx)"
proof -
  let ?t = "unat (kTypeBits c)" and ?i = "unat (kInstanceIDBits c)"
  let ?p = "unat (kPrimitiveIndexBits c)"
  from fits have ti: "?t + ?i \<le> 32" and tip: "?t + ?i + ?p \<le> 64"
    by (simp_all add: header_fits_def)
  then have off: "unat (kTypeOffset c) = 32 - ?t"
    by (simp add: unat_kTypeOffset)
  from len size_cases [of c] have l0: "0 < length packed" and l1: "1 < length packed"
    by auto
  show ?thesis
  proof (cases "kHeaderBits c \<le> 32")
    case True
    then have sum: "?t + ?i + ?p \<le> 32"
      using kHeaderBits_le_32 [OF tip] by simp
    let ?w0 = "shl type (kTypeOffset c) OR shl (index instID) (kInstanceIDOffset c) OR primIdx"
    have e1: "shr ?w0 (kInstanceIDOffset c) AND (shl 1 (kInstanceIDBits c) - 1) = index instID"
      unfolding shl_1_minus_1 using hdr32_iid [OF sum iid pidx, of "type"]
      by (simp add: shl_def shr_def off kInstanceIDOffset_def)
    have e2: "?w0 AND (shl 1 (kPrimitiveIndexBits c) - 1) = primIdx"
      unfolding shl_1_minus_1 using hdr32_pidx [OF sum iid pidx, of "type"]
      by (simp add: shl_def off kInstanceIDOffset_def)
    show ?thesis
      using True l0 by (simp add: packHeader_def unpackHeader_def wr_def rd_def e1 e2)
  next
    case False
    let ?w0 = "shl type (kTypeOffset c) OR index instID"
    have e1: "?w0 AND (shl 1 (kInstanceIDBits c) - 1) = index instID"
      unfolding shl_1_minus_1 using hdr64_iid [OF ti iid, of "type"]
      by (simp add: shl_def off)
    show ?thesis
      using False l0 l1 by (simp add: packHeader_def unpackHeader_def wr_def rd_def e1 nth_list_update)
  qed
qed

lemma header_fits_scenarioA: "header_fits scenarioA"
  by (simp add: header_fits_def scenarioA_def kTypeBits_def kInstanceIDBits_def kPrimitiveIndexBits_def)

theorem unpackHeader_packHeader_witness:
  "header_fits scenarioA \<and> kHeaderBits scenarioA \<le> 32
   \<and> length [0, 0, 0, 0 :: u32] = PackedHitInfo_size scenarioA
   \<and> unat (index \<lparr>index = 5\<rparr>) < 2 ^ unat (kInstanceIDBits scenarioA)
   \<and> unat (1234 :: u32) < 2 ^ unat (kPrimitiveIndexBits scenarioA)
   \<and> (packHeader scenarioA [0, 0, 0, 0] HitType_Triangle \<lparr>index = 5\<rparr> 1234
         \<bind> unpackHeader scenarioA) = Some (\<lparr>index = 5\<rparr>, 1234)
   \<and> header_fits twoWordHeader \<and> \<not> kHeaderBits twoWordHeader \<le> 32
   \<and> length [0, 0, 0, 0 :: u32] = PackedHitInfo_size twoWordHeader
   \<and> unat (index \<lparr>index = 1000000\<rparr>) < 2 ^ unat (kInstanceIDBits twoWordHeader)
   \<and> unat (4000000000 :: u32) < 2 ^ unat (kPrimitiveIndexBits twoWordHeader)
   \<and> (packHeader twoWordHeader [0, 0, 0, 0] HitType_Volume \<lparr>index = 1000000\<rparr> 4000000000
         \<bind> unpackHeader twoWordHeader) = Some (\<lparr>index = 1000000\<rparr>, 4000000000)"
proof -
  have a: "header_fits scenarioA" by (rule header_fits_scenarioA)
  have b: "length [0, 0, 0, 0 :: u32] = PackedHitInfo_size scenarioA"
    by (simp add: PackedHitInfo_size_def scenarioA_def)
  have c: "unat (index \<lparr>index = 5\<rparr>) < 2 ^ unat (kInstanceIDBits scenarioA)"
    by (simp add: kInstanceIDBits_def scenarioA_def)
  have d: "unat (1234 :: u32) < 2 ^ unat (kPrimitiveIndexBits scenarioA)"
    by (simp add: kPrimitiveIndexBits_def scenarioA_def)
  have a': "header_fits twoWordHeader"
    by (simp add: header_fits_def example_defs)
  have b': "length [0, 0, 0, 0 :: u32] = PackedHitInfo_size twoWordHeader"
    by (simp add: PackedHitInfo_size_def twoWordHeader_def)
  have c': "unat (index \<lparr>index = 1000000\<rparr>) < 2 ^ unat (kInstanceIDBits twoWordHeader)"
    by (simp add: kInstanceIDBits_def twoWordHeader_def)
  have d': "unat (4000000000 :: u32) < 2 ^ unat (kPrimitiveIndexBits twoWordHeader)"
    by (simp add: kPrimitiveIndexBits_def twoWordHeader_def)
  have e: "kHeaderBits scenarioA \<le> 32" "\<not> kHeaderBits twoWordHeader \<le> 32"
    by (simp_all add: kHeaderBits_def example_defs)
  from unpackHeader_packHeader [OF a b c d, of HitType_Triangle]
    unpackHeader_packHeader [OF a' b' c' d', of HitType_Volume] a b c d a' b' c' d' e
  show ?thesis by blast
qed

text \<open>
  With 4 + 30 + 30 header bits the tag of a triangle hit lies inside the 30 bits that
  unpacking masks out for the instance ID: instance 0 comes back as instance 2^28.
\<close>

theorem unpackHeader_packHeader_counterexample:
  "unat (kTypeBits wideInstanceIDs) + unat (kInstanceIDBits wideInstanceIDs)
      + unat (kPrimitiveIndexBits wideInstanceIDs) = 64
   \<and> unat (index \<lparr>index = 0\<rparr>) < 2 ^ unat (kInstanceIDBits wideInstanceIDs)
   \<and> unat (0 :: u32) < 2 ^ unat (kPrimitiveIndexBits wideInstanceIDs)
   \<and> (packHeader wideInstanceIDs (PackedHitInfo_zero wideInstanceIDs) HitType_Triangle \<lparr>index = 0\<rparr> 0
        \<bind> unpackHeader wideInstanceIDs) = Some (\<lparr>index = 268435456\<rparr>, 0)"
  by (simp add: wideInstanceIDs_def kTypeBits_def kInstanceIDBits_def kPrimitiveIndexBits_def
      packHeader_def unpackHeader_def kHeaderBits_def kTypeOffset_def PackedHitInfo_zero_def
      wr_def rd_def shl_def shr_def HitType_Triangle_def)

text \<open>
  C2. A zero-filled PackedHitInfo has type None and is not valid, whatever the bit
  widths and the compression flag are: the tag read from a zero word is zero.
\<close>

theorem zero_filled_is_None:
  "getType c (HitInfo_init_packed (PackedHitInfo_zero c)) = Some HitType_None
   \<and> isValid c (HitInfo_init_packed (PackedHitInfo_zero c)) = Some False
   \<and> HitInfo_init c = HitInfo_init_packed (PackedHitInfo_zero c)
   \<and> makeInvalidHit c = HitInfo_init_packed (PackedHitInfo_zero c)"
  by (simp add: getType_def isValid_def HitInfo_init_packed_def HitInfo_init_def makeInvalidHit_def
      PackedHitInfo_zero_def rd_def shr_def HitType_None_def)

text \<open>
  C10. Constructing a HitInfo from packed words and calling pack() returns the words
  unchanged, and wrapping the words a HitInfo packs gives that HitInfo back. No query is
  marked mutating: each is a function of the record that returns its result only, and
  what it returns is computed from the stored words, so after any query pack() still
  returns the words the HitInfo was built from.
\<close>

theorem HitInfo_pack_init_packed:
  "HitInfo_pack (HitInfo_init_packed p) = p
   \<and> HitInfo_init_packed (HitInfo_pack h) = h
   \<and> HitInfo_pack (unpackHitInfo p) = p
   \<and> getType c (HitInfo_init_packed p) = map_option (\<lambda>w0. shr w0 (kTypeOffset c)) (rd p 0)
   \<and> isValid c (HitInfo_init_packed p)
        = map_option (\<lambda>w0. shr w0 (kTypeOffset c) \<noteq> HitType_None) (rd p 0)
   \<and> getInstanceID c (HitInfo_init_packed p) = map_option fst (unpackHeader c p)
   \<and> getPrimitiveIndex c (HitInfo_init_packed p) = map_option snd (unpackHeader c p)
   \<and> getTriangleHit fp c (HitInfo_init_packed p) = TriangleHit_init fp c p
   \<and> getDisplacedTriangleHit fp c (HitInfo_init_packed p) = DisplacedTriangleHit_init fp c p
   \<and> getCurveHit c (HitInfo_init_packed p) = CurveHit_init c p
   \<and> getSDFGridHit c (HitInfo_init_packed p) = SDFGridHit_init c p
   \<and> getVolumeHit fp c (HitInfo_init_packed p) = VolumeHit_init fp c p"
proof -
  have q: "getType c (HitInfo_init_packed p) = map_option (\<lambda>w0. shr w0 (kTypeOffset c)) (rd p 0)"
    by (cases "rd p 0") (simp_all add: getType_def HitInfo_init_packed_def)
  have v: "isValid c (HitInfo_init_packed p)
        = map_option (\<lambda>w0. shr w0 (kTypeOffset c) \<noteq> HitType_None) (rd p 0)"
    unfolding isValid_def q by (cases "rd p 0") simp_all
  have i: "getInstanceID c (HitInfo_init_packed p) = map_option fst (unpackHeader c p)"
    by (cases "unpackHeader c p") (auto simp add: getInstanceID_def HitInfo_init_packed_def)
  have x: "getPrimitiveIndex c (HitInfo_init_packed p) = map_option snd (unpackHeader c p)"
    by (cases "unpackHeader c p") (auto simp add: getPrimitiveIndex_def HitInfo_init_packed_def)
  show ?thesis
    unfolding q v i x
    by (simp add: HitInfo_pack_def HitInfo_init_packed_def unpackHitInfo_def getTriangleHit_def
        getDisplacedTriangleHit_def getCurveHit_def getSDFGridHit_def getVolumeHit_def)
qed






text \<open>
  C8. A variant whose geometry type is disabled decodes any packed words, of any
  length, to the value with every field zero, without reading a word. The four variants
  with a geometry type are Triangle, DisplacedTriangle, Curve and SDFGrid; VolumeHit has
  no geometry type and no such switch.
\<close>

theorem disabled_variant_is_zero:
  "(\<not> SCENE_HAS_GEOMETRY_TYPE c GEOMETRY_TYPE_TRIANGLE_MESH \<longrightarrow>
      TriangleHit_init fp c packed
        = Some \<lparr>instanceID = \<lparr>index = 0\<rparr>, primitiveIndex = 0, barycentrics = (0, 0)\<rparr>)
   \<and> (\<not> SCENE_HAS_GEOMETRY_TYPE c GEOMETRY_TYPE_DISPLACED_TRIANGLE_MESH \<longrightarrow>
      DisplacedTriangleHit_init fp c packed
        = Some \<lparr>instanceID = \<lparr>index = 0\<rparr>, primitiveIndex = 0, barycentrics = (0, 0),
                displacement = 0\<rparr>)
   \<and> (\<not> SCENE_HAS_GEOMETRY_TYPE c GEOMETRY_TYPE_CURVE \<longrightarrow>
      CurveHit_init c packed
        = Some \<lparr>instanceID = \<lparr>index = 0\<rparr>, primitiveIndex = 0, barycentrics = (0, 0)\<rparr>)
   \<and> (\<not> SCENE_HAS_GEOMETRY_TYPE c GEOMETRY_TYPE_SDF_GRID \<longrightarrow>
      SDFGridHit_init c packed
        = Some \<lparr>sdfInstanceID = \<lparr>index = 0\<rparr>,
                hitData = \<lparr>lod = 0, primitiveID = 0, svoIndex = 0, hitT = 0\<rparr>\<rparr>)"
  by (simp add: TriangleHit_init_def DisplacedTriangleHit_init_def CurveHit_init_def
      SDFGridHit_init_def GeometryHit_zero_def DisplacedTriangleHit_zero_def SDFGridHit_zero_def)

theorem disabled_variant_is_zero_witness:
  "\<forall>fp. \<not> SCENE_HAS_GEOMETRY_TYPE noGeometry GEOMETRY_TYPE_TRIANGLE_MESH
   \<and> \<not> SCENE_HAS_GEOMETRY_TYPE noGeometry GEOMETRY_TYPE_DISPLACED_TRIANGLE_MESH
   \<and> \<not> SCENE_HAS_GEOMETRY_TYPE noGeometry GEOMETRY_TYPE_CURVE
   \<and> \<not> SCENE_HAS_GEOMETRY_TYPE noGeometry GEOMETRY_TYPE_SDF_GRID
   \<and> TriangleHit_init fp noGeometry [268435463, 9, 1048576000, 1061158912]
        = Some \<lparr>instanceID = \<lparr>index = 0\<rparr>, primitiveIndex = 0, barycentrics = (0, 0)\<rparr>
   \<and> DisplacedTriangleHit_init fp noGeometry [268435463, 9, 1048576000, 1061158912]
        = Some \<lparr>instanceID = \<lparr>index = 0\<rparr>, primitiveIndex = 0, barycentrics = (0, 0),
                displacement = 0\<rparr>
   \<and> CurveHit_init noGeometry [268435463, 9, 1048576000, 1061158912]
        = Some \<lparr>instanceID = \<lparr>index = 0\<rparr>, primitiveIndex = 0, barycentrics = (0, 0)\<rparr>
   \<and> SDFGridHit_init noGeometry [268435463, 9, 1048576000, 1061158912]
        = Some \<lparr>sdfInstanceID = \<lparr>index = 0\<rparr>,
                hitData = \<lparr>lod = 0, primitiveID = 0, svoIndex = 0, hitT = 0\<rparr>\<rparr>"
proof
  fix fp
  have off: "\<not> SCENE_HAS_GEOMETRY_TYPE noGeometry ty" for ty
    by (simp add: SCENE_HAS_GEOMETRY_TYPE_def noGeometry_def)
  from disabled_variant_is_zero [of noGeometry fp "[268435463, 9, 1048576000, 1061158912]"] off
  show "\<not> SCENE_HAS_GEOMETRY_TYPE noGeometry GEOMETRY_TYPE_TRIANGLE_MESH
   \<and> \<not> SCENE_HAS_GEOMETRY_TYPE noGeometry GEOMETRY_TYPE_DISPLACED_TRIANGLE_MESH
   \<and> \<not> SCENE_HAS_GEOMETRY_TYPE noGeometry GEOMETRY_TYPE_CURVE
   \<and> \<not> SCENE_HAS_GEOMETRY_TYPE noGeometry GEOMETRY_TYPE_SDF_GRID
   \<and> TriangleHit_init fp noGeometry [268435463, 9, 1048576000, 1061158912]
        = Some \<lparr>instanceID = \<lparr>index = 0\<rparr>, primitiveIndex = 0, barycentrics = (0, 0)\<rparr>
   \<and> DisplacedTriangleHit_init fp noGeometry [268435463, 9, 1048576000, 1061158912]
        = Some \<lparr>instanceID = \<lparr>index = 0\<rparr>, primitiveIndex = 0, barycentrics = (0, 0),
                displacement = 0\<rparr>
   \<and> CurveHit_init noGeometry [268435463, 9, 1048576000, 1061158912]
        = Some \<lparr>instanceID = \<lparr>index = 0\<rparr>, primitiveIndex = 0, barycentrics = (0, 0)\<rparr>
   \<and> SDFGridHit_init noGeometry [268435463, 9, 1048576000, 1061158912]
        = Some \<lparr>sdfInstanceID = \<lparr>index = 0\<rparr>,
                hitData = \<lparr>lod = 0, primitiveID = 0, svoIndex = 0, hitT = 0\<rparr>\<rparr>"
    by simp
qed

lemma uncompressed_in_bounds:
  assumes "\<not> HIT_INFO_USE_COMPRESSION c" and "length packed = 4"
  shows "TriangleHit_pack fp c th \<noteq> None" "TriangleHit_init fp c packed \<noteq> None"
    "DisplacedTriangleHit_pack fp c dh \<noteq> None" "DisplacedTriangleHit_init fp c packed \<noteq> None"
    "CurveHit_pack c ch \<noteq> None" "CurveHit_init c packed \<noteq> None"
    "SDFGridHit_pack c sh \<noteq> None" "SDFGridHit_init c packed \<noteq> None"
    "VolumeHit_pack fp c vh \<noteq> None" "VolumeHit_init fp c packed \<noteq> None"
  using assms by (simp_all add: codec_defs split: prod.split)

lemma compressed_in_bounds:
  assumes "HIT_INFO_USE_COMPRESSION c" and "length packed = 2"
  shows "TriangleHit_pack fp c th \<noteq> None" "TriangleHit_init fp c packed \<noteq> None"
    "VolumeHit_pack fp c vh \<noteq> None" "VolumeHit_init fp c packed \<noteq> None"
  using assms by (simp_all add: codec_defs split: prod.split)

lemma compressed_out_of_bounds:
  assumes "HIT_INFO_USE_COMPRESSION c" and "length packed = 2"
  shows "DisplacedTriangleHit_pack fp c dh = None
           \<longleftrightarrow> SCENE_HAS_GEOMETRY_TYPE c GEOMETRY_TYPE_DISPLACED_TRIANGLE_MESH"
    "DisplacedTriangleHit_init fp c packed = None
           \<longleftrightarrow> SCENE_HAS_GEOMETRY_TYPE c GEOMETRY_TYPE_DISPLACED_TRIANGLE_MESH"
    "CurveHit_pack c ch = None \<longleftrightarrow> SCENE_HAS_GEOMETRY_TYPE c GEOMETRY_TYPE_CURVE"
    "CurveHit_init c packed = None \<longleftrightarrow> SCENE_HAS_GEOMETRY_TYPE c GEOMETRY_TYPE_CURVE"
    "SDFGridHit_pack c sh = None \<longleftrightarrow> SCENE_HAS_GEOMETRY_TYPE c GEOMETRY_TYPE_SDF_GRID"
    "SDFGridHit_init c packed = None \<longleftrightarrow> SCENE_HAS_GEOMETRY_TYPE c GEOMETRY_TYPE_SDF_GRID"
  using assms by (simp_all add: codec_defs split: prod.split)

text \<open>
  C9 (as amended). Without compression (four words) every index that a pack() or a
  decoder of any variant reads or writes is within the array. With compression (two
  words) this holds for the Triangle and Volume codecs; the DisplacedTriangle, Curve and
  SDFGrid codecs stay within the array exactly when their geometry type is disabled, and
  address a word the array does not have when it is enabled.
\<close>

theorem codec_indices_in_bounds:
  assumes "length packed = PackedHitInfo_size c"
  shows "(\<not> HIT_INFO_USE_COMPRESSION c \<longrightarrow>
            TriangleHit_pack fp c th \<noteq> None \<and> TriangleHit_init fp c packed \<noteq> None
          \<and> DisplacedTriangleHit_pack fp c dh \<noteq> None \<and> DisplacedTriangleHit_init fp c packed \<noteq> None
          \<and> CurveHit_pack c ch \<noteq> None \<and> CurveHit_init c packed \<noteq> None
          \<and> SDFGridHit_pack c sh \<noteq> None \<and> SDFGridHit_init c packed \<noteq> None
          \<and> VolumeHit_pack fp c vh \<noteq> None \<and> VolumeHit_init fp c packed \<noteq> None)
       \<and> (HIT_INFO_USE_COMPRESSION c \<longrightarrow>
            TriangleHit_pack fp c th \<noteq> None \<and> TriangleHit_init fp c packed \<noteq> None
          \<and> VolumeHit_pack fp c vh \<noteq> None \<and> VolumeHit_init fp c packed \<noteq> None
          \<and> (DisplacedTriangleHit_pack fp c dh = None
                \<longleftrightarrow> SCENE_HAS_GEOMETRY_TYPE c GEOMETRY_TYPE_DISPLACED_TRIANGLE_MESH)
          \<and> (DisplacedTriangleHit_init fp c packed = None
                \<longleftrightarrow> SCENE_HAS_GEOMETRY_TYPE c GEOMETRY_TYPE_DISPLACED_TRIANGLE_MESH)
          \<and> (CurveHit_pack c ch = None \<longleftrightarrow> SCENE_HAS_GEOMETRY_TYPE c GEOMETRY_TYPE_CURVE)
          \<and> (CurveHit_init c packed = None \<longleftrightarrow> SCENE_HAS_GEOMETRY_TYPE c GEOMETRY_TYPE_CURVE)
          \<and> (SDFGridHit_pack c sh = None \<longleftrightarrow> SCENE_HAS_GEOMETRY_TYPE c GEOMETRY_TYPE_SDF_GRID)
          \<and> (SDFGridHit_init c packed = None \<longleftrightarrow> SCENE_HAS_GEOMETRY_TYPE c GEOMETRY_TYPE_SDF_GRID))"
proof (cases "HIT_INFO_USE_COMPRESSION c")
  case True
  with assms have "length packed = 2" by (simp add: PackedHitInfo_size_def)
  with True show ?thesis
    using compressed_in_bounds [of c packed] compressed_out_of_bounds [of c packed] by simp
next
  case False
  with assms have "length packed = 4" by (simp add: PackedHitInfo_size_def)
  with False show ?thesis
    using uncompressed_in_bounds [of c packed] by simp
qed

theorem codec_indices_in_bounds_witness:
  "\<forall>fp. \<not> HIT_INFO_USE_COMPRESSION scenarioA
     \<and> length (PackedHitInfo_zero scenarioA) = PackedHitInfo_size scenarioA
     \<and> TriangleHit_pack fp scenarioA exampleTriangle \<noteq> None
     \<and> TriangleHit_init fp scenarioA (PackedHitInfo_zero scenarioA) \<noteq> None
     \<and> DisplacedTriangleHit_pack fp scenarioA exampleDisplaced \<noteq> None
     \<and> DisplacedTriangleHit_init fp scenarioA (PackedHitInfo_zero scenarioA) \<noteq> None
     \<and> CurveHit_pack scenarioA exampleTriangle \<noteq> None
     \<and> CurveHit_init scenarioA (PackedHitInfo_zero scenarioA) \<noteq> None
     \<and> SDFGridHit_pack scenarioA exampleSDFGrid \<noteq> None
     \<and> SDFGridHit_init scenarioA (PackedHitInfo_zero scenarioA) \<noteq> None
     \<and> VolumeHit_pack fp scenarioA exampleVolume \<noteq> None
     \<and> VolumeHit_init fp scenarioA (PackedHitInfo_zero scenarioA) \<noteq> None
     \<and> HIT_INFO_USE_COMPRESSION compressedCurves
     \<and> length (PackedHitInfo_zero compressedCurves) = PackedHitInfo_size compressedCurves
     \<and> SCENE_HAS_GEOMETRY_TYPE compressedCurves GEOMETRY_TYPE_CURVE
     \<and> \<not> SCENE_HAS_GEOMETRY_TYPE compressedCurves GEOMETRY_TYPE_SDF_GRID
     \<and> TriangleHit_pack fp compressedCurves exampleTriangle \<noteq> None
     \<and> TriangleHit_init fp compressedCurves (PackedHitInfo_zero compressedCurves) \<noteq> None
     \<and> VolumeHit_pack fp compressedCurves exampleVolume \<noteq> None
     \<and> VolumeHit_init fp compressedCurves (PackedHitInfo_zero compressedCurves) \<noteq> None
     \<and> CurveHit_pack compressedCurves exampleTriangle = None
     \<and> CurveHit_init compressedCurves (PackedHitInfo_zero compressedCurves) = None
     \<and> SDFGridHit_pack compressedCurves exampleSDFGrid \<noteq> None
     \<and> SDFGridHit_init compressedCurves (PackedHitInfo_zero compressedCurves) \<noteq> None"
proof
  fix fp
  have a: "\<not> HIT_INFO_USE_COMPRESSION scenarioA" "HIT_INFO_USE_COMPRESSION compressedCurves"
    "SCENE_HAS_GEOMETRY_TYPE compressedCurves GEOMETRY_TYPE_CURVE"
    "\<not> SCENE_HAS_GEOMETRY_TYPE compressedCurves GEOMETRY_TYPE_SDF_GRID"
    by (simp_all add: example_defs)
  note la = length_PackedHitInfo_zero [of scenarioA]
  note lc = length_PackedHitInfo_zero [of compressedCurves]
  from codec_indices_in_bounds [OF la, of fp exampleTriangle exampleDisplaced exampleTriangle
      exampleSDFGrid exampleVolume]
    codec_indices_in_bounds [OF lc, of fp exampleTriangle exampleDisplaced exampleTriangle
      exampleSDFGrid exampleVolume] a la lc
  show "\<not> HIT_INFO_USE_COMPRESSION scenarioA
     \<and> length (PackedHitInfo_zero scenarioA) = PackedHitInfo_size scenarioA
     \<and> TriangleHit_pack fp scenarioA exampleTriangle \<noteq> None
     \<and> TriangleHit_init fp scenarioA (PackedHitInfo_zero scenarioA) \<noteq> None
     \<and> DisplacedTriangleHit_pack fp scenarioA exampleDisplaced \<noteq> None
     \<and> DisplacedTriangleHit_init fp scenarioA (PackedHitInfo_zero scenarioA) \<noteq> None
     \<and> CurveHit_pack scenarioA exampleTriangle \<noteq> None
     \<and> CurveHit_init scenarioA (PackedHitInfo_zero scenarioA) \<noteq> None
     \<and> SDFGridHit_pack scenarioA exampleSDFGrid \<noteq> None
     \<and> SDFGridHit_init scenarioA (PackedHitInfo_zero scenarioA) \<noteq> None
     \<and> VolumeHit_pack fp scenarioA exampleVolume \<noteq> None
     \<and> VolumeHit_init fp scenarioA (PackedHitInfo_zero scenarioA) \<noteq> None
     \<and> HIT_INFO_USE_COMPRESSION compressedCurves
     \<and> length (PackedHitInfo_zero compressedCurves) = PackedHitInfo_size compressedCurves
     \<and> SCENE_HAS_GEOMETRY_TYPE compressedCurves GEOMETRY_TYPE_CURVE
     \<and> \<not> SCENE_HAS_GEOMETRY_TYPE compressedCurves GEOMETRY_TYPE_SDF_GRID
     \<and> TriangleHit_pack fp compressedCurves exampleTriangle \<noteq> None
     \<and> TriangleHit_init fp compressedCurves (PackedHitInfo_zero compressedCurves) \<noteq> None
     \<and> VolumeHit_pack fp compressedCurves exampleVolume \<noteq> None
     \<and> VolumeHit_init fp compressedCurves (PackedHitInfo_zero compressedCurves) \<noteq> None
     \<and> CurveHit_pack compressedCurves exampleTriangle = None
     \<and> CurveHit_init compressedCurves (PackedHitInfo_zero compressedCurves) = None
     \<and> SDFGridHit_pack compressedCurves exampleSDFGrid \<noteq> None
     \<and> SDFGridHit_init compressedCurves (PackedHitInfo_zero compressedCurves) \<noteq> None"
    by blast
qed

text \<open>
  With compression and curves enabled, \<open>CurveHit::pack\<close> writes \<open>packed[2]\<close> of a
  two-word array.
\<close>

theorem codec_indices_in_bounds_counterexample:
  "HIT_INFO_USE_COMPRESSION compressedCurves
   \<and> PackedHitInfo_size compressedCurves = 2
   \<and> SCENE_HAS_GEOMETRY_TYPE compressedCurves GEOMETRY_TYPE_CURVE
   \<and> CurveHit_pack compressedCurves
        \<lparr>instanceID = \<lparr>index = 5\<rparr>, primitiveIndex = 7, barycentrics = (1048576000, 1061158912)\<rparr>
       = None
   \<and> CurveHit_init compressedCurves [805634055, 0] = None"
  by (simp add: compressedCurves_def PackedHitInfo_size_def SCENE_HAS_GEOMETRY_TYPE_def
      CurveHit_pack_def CurveHit_init_def packHeader_def unpackHeader_def PackedHitInfo_zero_def
      wr_def rd_def kHeaderBits_def kTypeBits_def kInstanceIDBits_def kPrimitiveIndexBits_def)


lemma tag32:
  fixes ty iid pidx :: u32
  assumes "tb + ib + pb \<le> 32" "unat ty < 2 ^ tb" "unat iid < 2 ^ ib" "unat pidx < 2 ^ pb"
  shows "drop_bit (32 - tb) (push_bit (32 - tb) ty OR push_bit pb iid OR pidx) = ty"
  apply (rule bit_word_eqI)
  using assms
  apply (auto simp add: bit_simps dest: fits_bit)
  done

lemma tag64:
  fixes ty iid :: u32
  assumes "tb + ib \<le> 32" "unat ty < 2 ^ tb" "unat iid < 2 ^ ib"
  shows "drop_bit (32 - tb) (push_bit (32 - tb) ty OR iid) = ty"
  apply (rule bit_word_eqI)
  using assms
  apply (auto simp add: bit_simps dest: fits_bit)
  done

lemma tag16:
  fixes ty h :: u32
  assumes "tb \<le> 16" "unat ty < 2 ^ tb"
  shows "drop_bit (32 - tb) (push_bit (32 - tb) ty OR (h AND mask 16)) = ty"
  apply (rule bit_word_eqI)
  using assms
  apply (auto simp add: bit_simps dest: fits_bit)
  done

lemma tag0:
  fixes ty :: u32
  assumes "tb \<le> 32" "unat ty < 2 ^ tb"
  shows "drop_bit (32 - tb) (push_bit (32 - tb) ty) = ty"
  apply (rule bit_word_eqI)
  using assms
  apply (auto simp add: bit_simps dest: fits_bit)
  done

lemma tag_low_bits:
  fixes w0 low :: u32
  shows "drop_bit n ((w0 AND NOT (mask n)) OR (low AND mask n)) = drop_bit n w0"
  by (rule bit_word_eqI) (auto simp add: bit_simps dest: bit_imp_le_length)

lemma type_of_header:
  assumes fits: "header_fits c"
    and ty: "unat ty < 2 ^ unat (kTypeBits c)"
    and iid: "unat iid < 2 ^ unat (kInstanceIDBits c)"
    and pidx: "unat pidx < 2 ^ unat (kPrimitiveIndexBits c)"
  shows "kHeaderBits c \<le> 32 \<Longrightarrow>
           shr (shl ty (kTypeOffset c) OR shl iid (kInstanceIDOffset c) OR pidx) (kTypeOffset c) = ty"
    and "shr (shl ty (kTypeOffset c) OR iid) (kTypeOffset c) = ty"
proof -
  let ?t = "unat (kTypeBits c)" and ?i = "unat (kInstanceIDBits c)"
  let ?p = "unat (kPrimitiveIndexBits c)"
  from fits have ti: "?t + ?i \<le> 32" and tip: "?t + ?i + ?p \<le> 64"
    by (simp_all add: header_fits_def)
  then have off: "unat (kTypeOffset c) = 32 - ?t"
    by (simp add: unat_kTypeOffset)
  show "shr (shl ty (kTypeOffset c) OR iid) (kTypeOffset c) = ty"
    using tag64 [OF ti ty iid] by (simp add: shl_def shr_def off)
  assume "kHeaderBits c \<le> 32"
  then have sum: "?t + ?i + ?p \<le> 32"
    using kHeaderBits_le_32 [OF tip] by simp
  show "shr (shl ty (kTypeOffset c) OR shl iid (kInstanceIDOffset c) OR pidx) (kTypeOffset c) = ty"
    using tag32 [OF sum ty iid pidx] by (simp add: shl_def shr_def off kInstanceIDOffset_def)
qed

lemma type_of_tag_only:
  assumes fits: "header_fits c" and ty: "unat ty < 2 ^ unat (kTypeBits c)"
  shows "shr (shl ty (kTypeOffset c)) (kTypeOffset c) = ty"
    and "unat (kTypeBits c) \<le> 16 \<Longrightarrow>
           shr (shl ty (kTypeOffset c) OR (h AND 65535)) (kTypeOffset c) = ty"
proof -
  let ?t = "unat (kTypeBits c)"
  from fits have t32: "?t \<le> 32" by (simp add: header_fits_def)
  then have off: "unat (kTypeOffset c) = 32 - ?t"
    by (simp add: unat_kTypeOffset)
  show "shr (shl ty (kTypeOffset c)) (kTypeOffset c) = ty"
    using tag0 [OF t32 ty] by (simp add: shl_def shr_def off)
  assume "?t \<le> 16"
  from tag16 [OF this ty, of h]
  show "shr (shl ty (kTypeOffset c) OR (h AND 65535)) (kTypeOffset c) = ty"
    by (simp add: shl_def shr_def off mask_numeral)
qed

lemma getType_TriangleHit:
  assumes "header_fits c" "SCENE_HAS_GEOMETRY_TYPE c GEOMETRY_TYPE_TRIANGLE_MESH"
    "unat HitType_Triangle < 2 ^ unat (kTypeBits c)"
    "unat (index (instanceID th)) < 2 ^ unat (kInstanceIDBits c)"
    "unat (primitiveIndex th) < 2 ^ unat (kPrimitiveIndexBits c)"
  shows "(HitInfo_init_TriangleHit fp c th \<bind> getType c) = Some HitType_Triangle"
  using assms(2) type_of_header [OF assms(1,3,4,5)]
  by (simp add: hitinfo_defs codec_defs)

lemma getType_DisplacedTriangleHit:
  assumes "header_fits c" "SCENE_HAS_GEOMETRY_TYPE c GEOMETRY_TYPE_DISPLACED_TRIANGLE_MESH"
    "unat HitType_DisplacedTriangle < 2 ^ unat (kTypeBits c)"
    "unat (index (instanceID dh)) < 2 ^ unat (kInstanceIDBits c)"
    "unat (primitiveIndex dh) < 2 ^ unat (kPrimitiveIndexBits c)"
    "\<not> HIT_INFO_USE_COMPRESSION c"
  shows "(HitInfo_init_DisplacedTriangleHit fp c dh \<bind> getType c) = Some HitType_DisplacedTriangle"
  using assms(2,6) type_of_header [OF assms(1,3,4,5)]
  by (simp add: hitinfo_defs codec_defs split: prod.split)

lemma getType_CurveHit:
  assumes "header_fits c" "SCENE_HAS_GEOMETRY_TYPE c GEOMETRY_TYPE_CURVE"
    "unat HitType_Curve < 2 ^ unat (kTypeBits c)"
    "unat (index (instanceID ch)) < 2 ^ unat (kInstanceIDBits c)"
    "unat (primitiveIndex ch) < 2 ^ unat (kPrimitiveIndexBits c)"
    "\<not> HIT_INFO_USE_COMPRESSION c"
  shows "(HitInfo_init_CurveHit c ch \<bind> getType c) = Some HitType_Curve"
  using assms(2,6) type_of_header [OF assms(1,3,4,5)]
  by (simp add: hitinfo_defs codec_defs)

lemma getType_SDFGridHit:
  assumes "header_fits c" "SCENE_HAS_GEOMETRY_TYPE c GEOMETRY_TYPE_SDF_GRID"
    "unat HitType_SDFGrid < 2 ^ unat (kTypeBits c)"
    "unat (index (sdfInstanceID sh)) < 2 ^ unat (kInstanceIDBits c)"
    "unat (SDFGridHit_primitiveData c sh) < 2 ^ unat (kPrimitiveIndexBits c)"
    "\<not> HIT_INFO_USE_COMPRESSION c"
  shows "(HitInfo_init_SDFGridHit c sh \<bind> getType c) = Some HitType_SDFGrid"
  using assms(2,6) type_of_header [OF assms(1,3,4,5)]
  by (simp add: hitinfo_defs codec_defs)

lemma getType_VolumeHit:
  assumes "header_fits c" "unat HitType_Volume < 2 ^ unat (kTypeBits c)"
    "HIT_INFO_USE_COMPRESSION c \<Longrightarrow> unat (kTypeBits c) \<le> 16"
  shows "(HitInfo_init_VolumeHit fp c vh \<bind> getType c) = Some HitType_Volume"
  using assms(3) type_of_tag_only [OF assms(1,2)]
  by (simp add: hitinfo_defs codec_defs)


text \<open>
  C3 (as amended). Let the widths satisfy typeBits \<ge> 1, typeBits + instanceIDBits \<le> 32
  and headerBits \<le> 64. For an enabled variant whose tag is below 2^typeBits, and a
  typed hit whose instanceID and primitiveIndex (for SDFGrid: the auxiliary field) lie
  within the configured widths, getType() of the HitInfo built from the hit is the
  variant's tag; for DisplacedTriangle, Curve and SDFGrid this needs the uncompressed
  array, for Volume with compression it needs typeBits \<le> 16. getType() depends on the
  bits of word 0 from typeOffset upwards only: the lower bits of word 0 and all other
  words may change without changing it.
\<close>

theorem getType_of_packed_hit:
  assumes "header_fits c"
  shows "(SCENE_HAS_GEOMETRY_TYPE c GEOMETRY_TYPE_TRIANGLE_MESH
            \<and> unat HitType_Triangle < 2 ^ unat (kTypeBits c)
            \<and> unat (index (instanceID th)) < 2 ^ unat (kInstanceIDBits c)
            \<and> unat (primitiveIndex th) < 2 ^ unat (kPrimitiveIndexBits c)
          \<longrightarrow> (HitInfo_init_TriangleHit fp c th \<bind> getType c) = Some HitType_Triangle)
       \<and> (\<not> HIT_INFO_USE_COMPRESSION c
            \<and> SCENE_HAS_GEOMETRY_TYPE c GEOMETRY_TYPE_DISPLACED_TRIANGLE_MESH
            \<and> unat HitType_DisplacedTriangle < 2 ^ unat (kTypeBits c)
            \<and> unat (index (instanceID dh)) < 2 ^ unat (kInstanceIDBits c)
            \<and> unat (primitiveIndex dh) < 2 ^ unat (kPrimitiveIndexBits c)
          \<longrightarrow> (HitInfo_init_DisplacedTriangleHit fp c dh \<bind> getType c)
                = Some HitType_DisplacedTriangle)
       \<and> (\<not> HIT_INFO_USE_COMPRESSION c
            \<and> SCENE_HAS_GEOMETRY_TYPE c GEOMETRY_TYPE_CURVE
            \<and> unat HitType_Curve < 2 ^ unat (kTypeBits c)
            \<and> unat (index (instanceID ch)) < 2 ^ unat (kInstanceIDBits c)
            \<and> unat (primitiveIndex ch) < 2 ^ unat (kPrimitiveIndexBits c)
          \<longrightarrow> (HitInfo_init_CurveHit c ch \<bind> getType c) = Some HitType_Curve)
       \<and> (\<not> HIT_INFO_USE_COMPRESSION c
            \<and> SCENE_HAS_GEOMETRY_TYPE c GEOMETRY_TYPE_SDF_GRID
            \<and> unat HitType_SDFGrid < 2 ^ unat (kTypeBits c)
            \<and> unat (index (sdfInstanceID sh)) < 2 ^ unat (kInstanceIDBits c)
            \<and> unat (SDFGridHit_primitiveData c sh) < 2 ^ unat (kPrimitiveIndexBits c)
          \<longrightarrow> (HitInfo_init_SDFGridHit c sh \<bind> getType c) = Some HitType_SDFGrid)
       \<and> (unat HitType_Volume < 2 ^ unat (kTypeBits c)
            \<and> (HIT_INFO_USE_COMPRESSION c \<longrightarrow> unat (kTypeBits c) \<le> 16)
          \<longrightarrow> (HitInfo_init_VolumeHit fp c vh \<bind> getType c) = Some HitType_Volume)
       \<and> getType c \<lparr>data = ((w0 AND NOT (mask (unat (kTypeOffset c))))
                               OR (low AND mask (unat (kTypeOffset c)))) # ws'\<rparr>
           = getType c \<lparr>data = w0 # ws\<rparr>"
proof (intro conjI impI)
  show "getType c \<lparr>data = ((w0 AND NOT (mask (unat (kTypeOffset c))))
                               OR (low AND mask (unat (kTypeOffset c)))) # ws'\<rparr>
           = getType c \<lparr>data = w0 # ws\<rparr>"
    using tag_low_bits [of "unat (kTypeOffset c)" w0 low]
    by (simp add: getType_def rd_def shr_def)
qed (use assms in \<open>simp_all add: getType_TriangleHit getType_DisplacedTriangleHit
       getType_CurveHit getType_SDFGridHit getType_VolumeHit\<close>)


theorem getType_of_packed_hit_witness:
  "\<forall>fp. header_fits scenarioA
     \<and> \<not> HIT_INFO_USE_COMPRESSION scenarioA
     \<and> SCENE_HAS_GEOMETRY_TYPE scenarioA GEOMETRY_TYPE_TRIANGLE_MESH
     \<and> SCENE_HAS_GEOMETRY_TYPE scenarioA GEOMETRY_TYPE_DISPLACED_TRIANGLE_MESH
     \<and> SCENE_HAS_GEOMETRY_TYPE scenarioA GEOMETRY_TYPE_CURVE
     \<and> SCENE_HAS_GEOMETRY_TYPE scenarioA GEOMETRY_TYPE_SDF_GRID
     \<and> unat HitType_Triangle < 2 ^ unat (kTypeBits scenarioA)
     \<and> unat HitType_DisplacedTriangle < 2 ^ unat (kTypeBits scenarioA)
     \<and> unat HitType_Curve < 2 ^ unat (kTypeBits scenarioA)
     \<and> unat HitType_SDFGrid < 2 ^ unat (kTypeBits scenarioA)
     \<and> unat HitType_Volume < 2 ^ unat (kTypeBits scenarioA)
     \<and> unat (index (instanceID exampleTriangle)) < 2 ^ unat (kInstanceIDBits scenarioA)
     \<and> unat (primitiveIndex exampleTriangle) < 2 ^ unat (kPrimitiveIndexBits scenarioA)
     \<and> unat (index (instanceID exampleDisplaced)) < 2 ^ unat (kInstanceIDBits scenarioA)
     \<and> unat (primitiveIndex exampleDisplaced) < 2 ^ unat (kPrimitiveIndexBits scenarioA)
     \<and> unat (index (sdfInstanceID exampleSDFGrid)) < 2 ^ unat (kInstanceIDBits scenarioA)
     \<and> unat (SDFGridHit_primitiveData scenarioA exampleSDFGrid)
           < 2 ^ unat (kPrimitiveIndexBits scenarioA)
     \<and> (HitInfo_init_TriangleHit fp scenarioA exampleTriangle \<bind> getType scenarioA)
           = Some HitType_Triangle
     \<and> (HitInfo_init_DisplacedTriangleHit fp scenarioA exampleDisplaced \<bind> getType scenarioA)
           = Some HitType_DisplacedTriangle
     \<and> (HitInfo_init_CurveHit scenarioA exampleTriangle \<bind> getType scenarioA)
           = Some HitType_Curve
     \<and> (HitInfo_init_SDFGridHit scenarioA exampleSDFGrid \<bind> getType scenarioA)
           = Some HitType_SDFGrid
     \<and> (HitInfo_init_VolumeHit fp scenarioA exampleVolume \<bind> getType scenarioA)
           = Some HitType_Volume
     \<and> header_fits compressedCurves
     \<and> HIT_INFO_USE_COMPRESSION compressedCurves
     \<and> unat (kTypeBits compressedCurves) \<le> 16
     \<and> unat HitType_Volume < 2 ^ unat (kTypeBits compressedCurves)
     \<and> (HitInfo_init_VolumeHit fp compressedCurves exampleVolume \<bind> getType compressedCurves)
           = Some HitType_Volume"
proof
  fix fp
  have fitsC: "header_fits compressedCurves"
    by (simp add: header_fits_def example_defs)
  have preC: "HIT_INFO_USE_COMPRESSION compressedCurves
     \<and> unat (kTypeBits compressedCurves) \<le> 16
     \<and> unat HitType_Volume < 2 ^ unat (kTypeBits compressedCurves)"
    by (simp add: example_defs)
  have pre: "\<not> HIT_INFO_USE_COMPRESSION scenarioA
     \<and> SCENE_HAS_GEOMETRY_TYPE scenarioA GEOMETRY_TYPE_TRIANGLE_MESH
     \<and> SCENE_HAS_GEOMETRY_TYPE scenarioA GEOMETRY_TYPE_DISPLACED_TRIANGLE_MESH
     \<and> SCENE_HAS_GEOMETRY_TYPE scenarioA GEOMETRY_TYPE_CURVE
     \<and> SCENE_HAS_GEOMETRY_TYPE scenarioA GEOMETRY_TYPE_SDF_GRID
     \<and> unat HitType_Triangle < 2 ^ unat (kTypeBits scenarioA)
     \<and> unat HitType_DisplacedTriangle < 2 ^ unat (kTypeBits scenarioA)
     \<and> unat HitType_Curve < 2 ^ unat (kTypeBits scenarioA)
     \<and> unat HitType_SDFGrid < 2 ^ unat (kTypeBits scenarioA)
     \<and> unat HitType_Volume < 2 ^ unat (kTypeBits scenarioA)
     \<and> unat (index (instanceID exampleTriangle)) < 2 ^ unat (kInstanceIDBits scenarioA)
     \<and> unat (primitiveIndex exampleTriangle) < 2 ^ unat (kPrimitiveIndexBits scenarioA)
     \<and> unat (index (instanceID exampleDisplaced)) < 2 ^ unat (kInstanceIDBits scenarioA)
     \<and> unat (primitiveIndex exampleDisplaced) < 2 ^ unat (kPrimitiveIndexBits scenarioA)
     \<and> unat (index (sdfInstanceID exampleSDFGrid)) < 2 ^ unat (kInstanceIDBits scenarioA)
     \<and> unat (SDFGridHit_primitiveData scenarioA exampleSDFGrid)
           < 2 ^ unat (kPrimitiveIndexBits scenarioA)"
    by (simp add: example_defs)
  from getType_of_packed_hit [OF header_fits_scenarioA, of exampleTriangle fp exampleDisplaced
      exampleTriangle exampleSDFGrid exampleVolume]
    getType_of_packed_hit [OF fitsC, of _ fp _ _ _ exampleVolume]
    pre header_fits_scenarioA fitsC preC
  show "header_fits scenarioA
     \<and> \<not> HIT_INFO_USE_COMPRESSION scenarioA
     \<and> SCENE_HAS_GEOMETRY_TYPE scenarioA GEOMETRY_TYPE_TRIANGLE_MESH
     \<and> SCENE_HAS_GEOMETRY_TYPE scenarioA GEOMETRY_TYPE_DISPLACED_TRIANGLE_MESH
     \<and> SCENE_HAS_GEOMETRY_TYPE scenarioA GEOMETRY_TYPE_CURVE
     \<and> SCENE_HAS_GEOMETRY_TYPE scenarioA GEOMETRY_TYPE_SDF_GRID
     \<and> unat HitType_Triangle < 2 ^ unat (kTypeBits scenarioA)
     \<and> unat HitType_DisplacedTriangle < 2 ^ unat (kTypeBits scenarioA)
     \<and> unat HitType_Curve < 2 ^ unat (kTypeBits scenarioA)
     \<and> unat HitType_SDFGrid < 2 ^ unat (kTypeBits scenarioA)
     \<and> unat HitType_Volume < 2 ^ unat (kTypeBits scenarioA)
     \<and> unat (index (instanceID exampleTriangle)) < 2 ^ unat (kInstanceIDBits scenarioA)
     \<and> unat (primitiveIndex exampleTriangle) < 2 ^ unat (kPrimitiveIndexBits scenarioA)
     \<and> unat (index (instanceID exampleDisplaced)) < 2 ^ unat (kInstanceIDBits scenarioA)
     \<and> unat (primitiveIndex exampleDisplaced) < 2 ^ unat (kPrimitiveIndexBits scenarioA)
     \<and> unat (index (sdfInstanceID exampleSDFGrid)) < 2 ^ unat (kInstanceIDBits scenarioA)
     \<and> unat (SDFGridHit_primitiveData scenarioA exampleSDFGrid)
           < 2 ^ unat (kPrimitiveIndexBits scenarioA)
     \<and> (HitInfo_init_TriangleHit fp scenarioA exampleTriangle \<bind> getType scenarioA)
           = Some HitType_Triangle
     \<and> (HitInfo_init_DisplacedTriangleHit fp scenarioA exampleDisplaced \<bind> getType scenarioA)
           = Some HitType_DisplacedTriangle
     \<and> (HitInfo_init_CurveHit scenarioA exampleTriangle \<bind> getType scenarioA)
           = Some HitType_Curve
     \<and> (HitInfo_init_SDFGridHit scenarioA exampleSDFGrid \<bind> getType scenarioA)
           = Some HitType_SDFGrid
     \<and> (HitInfo_init_VolumeHit fp scenarioA exampleVolume \<bind> getType scenarioA)
           = Some HitType_Volume
     \<and> header_fits compressedCurves
     \<and> HIT_INFO_USE_COMPRESSION compressedCurves
     \<and> unat (kTypeBits compressedCurves) \<le> 16
     \<and> unat HitType_Volume < 2 ^ unat (kTypeBits compressedCurves)
     \<and> (HitInfo_init_VolumeHit fp compressedCurves exampleVolume \<bind> getType compressedCurves)
           = Some HitType_Volume"
    by blast
qed

text \<open>
  Three hits within the configured widths whose type does not come back. With 4 + 30 +
  30 header bits, bit 29 of the instance ID of an SDF grid hit lands in the tag: the
  type read is 6. With the widths the code takes without \<open>HIT_INFO_DEFINES\<close> (one bit
  each), the tag of a curve hit loses its upper bit: the type read is that of a triangle.
  With compression, packing a curve hit writes a word the array does not have.
\<close>

theorem getType_of_packed_hit_counterexample:
  "SCENE_HAS_GEOMETRY_TYPE wideInstanceIDs GEOMETRY_TYPE_SDF_GRID
   \<and> unat (index (sdfInstanceID wideSDFGrid)) < 2 ^ unat (kInstanceIDBits wideInstanceIDs)
   \<and> unat (SDFGridHit_primitiveData wideInstanceIDs wideSDFGrid)
         < 2 ^ unat (kPrimitiveIndexBits wideInstanceIDs)
   \<and> HitType_SDFGrid = 4
   \<and> (HitInfo_init_SDFGridHit wideInstanceIDs wideSDFGrid \<bind> getType wideInstanceIDs) = Some 6
   \<and> SCENE_HAS_GEOMETRY_TYPE noDefines GEOMETRY_TYPE_CURVE
   \<and> unat (index (instanceID GeometryHit_zero)) < 2 ^ unat (kInstanceIDBits noDefines)
   \<and> unat (primitiveIndex GeometryHit_zero) < 2 ^ unat (kPrimitiveIndexBits noDefines)
   \<and> HitType_Curve = 3
   \<and> (HitInfo_init_CurveHit noDefines GeometryHit_zero \<bind> getType noDefines)
         = Some HitType_Triangle
   \<and> SCENE_HAS_GEOMETRY_TYPE compressedCurves GEOMETRY_TYPE_CURVE
   \<and> unat (index (instanceID exampleTriangle)) < 2 ^ unat (kInstanceIDBits compressedCurves)
   \<and> unat (primitiveIndex exampleTriangle) < 2 ^ unat (kPrimitiveIndexBits compressedCurves)
   \<and> HitInfo_init_CurveHit compressedCurves exampleTriangle = None"
  by (simp add: example_defs GeometryHit_zero_def hitinfo_defs codec_defs kHeaderBits_def
      kTypeOffset_def kInstanceIDOffset_def shl_def shr_def)


lemma payload_layout:
  fixes ux uy h :: u32
  assumes "unat ux < 2 ^ 24" "unat uy < 2 ^ 24" "unat h < 2 ^ 16"
  shows "drop_bit 8 (push_bit 8 ux OR drop_bit 16 uy) = ux"
    and "(push_bit 8 ux OR drop_bit 16 uy) AND mask 8 = drop_bit 16 uy"
    and "drop_bit 16 (push_bit 16 uy OR h) = uy AND mask 16"
    and "(push_bit 16 uy OR h) AND mask 16 = h"
    and "push_bit 16 ((push_bit 8 ux OR drop_bit 16 uy) AND 255) OR drop_bit 16 (push_bit 16 uy OR h) = uy"
proof -
  have m: "(255 :: u32) = mask 8" by (simp add: mask_numeral)
  have bx: "k < 24" if "bit ux k" for k using fits_bit [OF assms(1) that] .
  have by': "k < 24" if "bit uy k" for k using fits_bit [OF assms(2) that] .
  have bh: "k < 16" if "bit h k" for k using fits_bit [OF assms(3) that] .
  show "drop_bit 8 (push_bit 8 ux OR drop_bit 16 uy) = ux"
    by (rule bit_word_eqI) (auto simp add: bit_simps dest: bx by' bh)
  show "(push_bit 8 ux OR drop_bit 16 uy) AND mask 8 = drop_bit 16 uy"
    by (rule bit_word_eqI) (auto simp add: bit_simps dest: bx by' bh)
  show "drop_bit 16 (push_bit 16 uy OR h) = uy AND mask 16"
    by (rule bit_word_eqI) (auto simp add: bit_simps dest: bx by' bh)
  show "(push_bit 16 uy OR h) AND mask 16 = h"
    by (rule bit_word_eqI) (auto simp add: bit_simps dest: bx by' bh)
  show "push_bit 16 ((push_bit 8 ux OR drop_bit 16 uy) AND 255) OR drop_bit 16 (push_bit 16 uy OR h) = uy"
    unfolding m
    by (rule bit_word_eqI) (auto simp add: bit_simps dest: bx by' bh)
qed

text \<open>
  C4 (as amended). Without compression and with displaced triangles enabled,
  DisplacedTriangleHit.pack() stores in words 2 and 3 the payload of the quantised
  barycentrics u.x, u.y and the half-float bits h of the displacement, where a
  barycentric v is quantised as uint(trunc(v * 16777215.f + 0.5f)), and the decoder
  reads the two integers back from these words and multiplies each by 1.f / 16777215.
  When u.x and u.y are below 2^24 and h is below 2^16 the payload is: u.x in word 2
  bits 31..8; the high 8 bits of u.y in word 2 bits 7..0 and the low 16 bits of u.y in
  word 3 bits 31..16; h in word 3 bits 15..0; and the decoder's integers are u.x and u.y.
\<close>

theorem DisplacedTriangleHit_layout:
  assumes "\<not> HIT_INFO_USE_COMPRESSION c"
    and "SCENE_HAS_GEOMETRY_TYPE c GEOMETRY_TYPE_DISPLACED_TRIANGLE_MESH"
    and "unat ux < 2 ^ 24" and "unat uy < 2 ^ 24" and "unat h < 2 ^ 16"
  shows "(\<exists>packed hit'.
            DisplacedTriangleHit_pack fp c hit = Some packed
          \<and> (packed ! 2, packed ! 3)
               = DisplacedTriangleHit_payload
                   (quantize24 fp (fst (barycentrics hit)), quantize24 fp (snd (barycentrics hit)))
                   (f32tof16 fp (displacement hit))
          \<and> DisplacedTriangleHit_init fp c packed = Some hit'
          \<and> barycentrics hit'
               = (dequantize24 fp (fst (DisplacedTriangleHit_unorms (packed ! 2) (packed ! 3))),
                  dequantize24 fp (snd (DisplacedTriangleHit_unorms (packed ! 2) (packed ! 3))))
          \<and> displacement hit' = f16tof32 fp (packed ! 3))
       \<and> quantize24 fp v = float_to_uint fp (ftrunc fp (fadd fp (fmul fp v float_16777215) float_0_5))
       \<and> dequantize24 fp u = fmul fp (uint_to_float fp u) (fdiv fp float_1 float_16777215)
       \<and> (case DisplacedTriangleHit_payload (ux, uy) h of (w2, w3) \<Rightarrow>
             drop_bit 8 w2 = ux
           \<and> w2 AND mask 8 = drop_bit 16 uy
           \<and> drop_bit 16 w3 = uy AND mask 16
           \<and> w3 AND mask 16 = h
           \<and> DisplacedTriangleHit_unorms w2 w3 = (ux, uy))"
proof (intro conjI)
  show "\<exists>packed hit'.
            DisplacedTriangleHit_pack fp c hit = Some packed
          \<and> (packed ! 2, packed ! 3)
               = DisplacedTriangleHit_payload
                   (quantize24 fp (fst (barycentrics hit)), quantize24 fp (snd (barycentrics hit)))
                   (f32tof16 fp (displacement hit))
          \<and> DisplacedTriangleHit_init fp c packed = Some hit'
          \<and> barycentrics hit'
               = (dequantize24 fp (fst (DisplacedTriangleHit_unorms (packed ! 2) (packed ! 3))),
                  dequantize24 fp (snd (DisplacedTriangleHit_unorms (packed ! 2) (packed ! 3))))
          \<and> displacement hit' = f16tof32 fp (packed ! 3)"
  proof -
    obtain w2 w3 where pl: "DisplacedTriangleHit_payload
        (quantize24 fp (fst (barycentrics hit)), quantize24 fp (snd (barycentrics hit)))
        (f32tof16 fp (displacement hit)) = (w2, w3)"
      by force
    obtain w0 w1 where pk: "DisplacedTriangleHit_pack fp c hit = Some [w0, w1, w2, w3]"
      using assms(1,2) pl by (cases "kHeaderBits c \<le> 32") (simp_all add: codec_defs)
    obtain iid pidx where hd: "unpackHeader c [w0, w1, w2, w3] = Some (iid, pidx)"
      by (cases "kHeaderBits c \<le> 32") (simp_all add: unpackHeader_def rd_def)
    have un: "DisplacedTriangleHit_init fp c [w0, w1, w2, w3]
        = Some \<lparr>instanceID = iid, primitiveIndex = pidx,
                  barycentrics = (dequantize24 fp (fst (DisplacedTriangleHit_unorms w2 w3)),
                                  dequantize24 fp (snd (DisplacedTriangleHit_unorms w2 w3))),
                  displacement = f16tof32 fp w3\<rparr>"
      using assms(2) hd by (simp add: DisplacedTriangleHit_init_def rd_def split: prod.split)
    from pk pl un show ?thesis by simp
  qed
  show "quantize24 fp v = float_to_uint fp (ftrunc fp (fadd fp (fmul fp v float_16777215) float_0_5))"
    by (simp add: quantize24_def)
  show "dequantize24 fp u = fmul fp (uint_to_float fp u) (fdiv fp float_1 float_16777215)"
    by (simp add: dequantize24_def)
  show "case DisplacedTriangleHit_payload (ux, uy) h of (w2, w3) \<Rightarrow>
             drop_bit 8 w2 = ux
           \<and> w2 AND mask 8 = drop_bit 16 uy
           \<and> drop_bit 16 w3 = uy AND mask 16
           \<and> w3 AND mask 16 = h
           \<and> DisplacedTriangleHit_unorms w2 w3 = (ux, uy)"
    using payload_layout [OF assms(3,4,5)]
    by (simp add: DisplacedTriangleHit_payload_def DisplacedTriangleHit_unorms_def shl_def shr_def)
qed


theorem DisplacedTriangleHit_layout_witness:
  "\<forall>fp. \<not> HIT_INFO_USE_COMPRESSION scenarioA
     \<and> SCENE_HAS_GEOMETRY_TYPE scenarioA GEOMETRY_TYPE_DISPLACED_TRIANGLE_MESH
     \<and> unat (4194304 :: u32) < 2 ^ 24 \<and> unat (12582912 :: u32) < 2 ^ 24
     \<and> unat (15872 :: u32) < 2 ^ 16
     \<and> DisplacedTriangleHit_payload (4194304, 12582912) 15872 = (1073742016, 15872)
     \<and> drop_bit 8 (1073742016 :: u32) = 4194304
     \<and> (1073742016 :: u32) AND mask 8 = drop_bit 16 12582912
     \<and> drop_bit 16 (15872 :: u32) = 12582912 AND mask 16
     \<and> (15872 :: u32) AND mask 16 = 15872
     \<and> DisplacedTriangleHit_unorms 1073742016 15872 = (4194304, 12582912)
     \<and> (\<exists>packed hit'.
            DisplacedTriangleHit_pack fp scenarioA exampleDisplaced = Some packed
          \<and> (packed ! 2, packed ! 3)
               = DisplacedTriangleHit_payload
                   (quantize24 fp (fst (barycentrics exampleDisplaced)),
                    quantize24 fp (snd (barycentrics exampleDisplaced)))
                   (f32tof16 fp (displacement exampleDisplaced))
          \<and> DisplacedTriangleHit_init fp scenarioA packed = Some hit'
          \<and> barycentrics hit'
               = (dequantize24 fp (fst (DisplacedTriangleHit_unorms (packed ! 2) (packed ! 3))),
                  dequantize24 fp (snd (DisplacedTriangleHit_unorms (packed ! 2) (packed ! 3))))
          \<and> displacement hit' = f16tof32 fp (packed ! 3))"
proof
  fix fp
  have a: "\<not> HIT_INFO_USE_COMPRESSION scenarioA"
    and b: "SCENE_HAS_GEOMETRY_TYPE scenarioA GEOMETRY_TYPE_DISPLACED_TRIANGLE_MESH"
    by (simp_all add: example_defs)
  have x: "unat (4194304 :: u32) < 2 ^ 24" and y: "unat (12582912 :: u32) < 2 ^ 24"
    and h: "unat (15872 :: u32) < 2 ^ 16"
    by simp_all
  have pl: "DisplacedTriangleHit_payload (4194304, 12582912) 15872 = (1073742016, 15872)"
    by (simp add: DisplacedTriangleHit_payload_def shl_def shr_def)
  note layout = DisplacedTriangleHit_layout [OF a b x y h, of fp exampleDisplaced]
  from layout have ex: "\<exists>packed hit'.
            DisplacedTriangleHit_pack fp scenarioA exampleDisplaced = Some packed
          \<and> (packed ! 2, packed ! 3)
               = DisplacedTriangleHit_payload
                   (quantize24 fp (fst (barycentrics exampleDisplaced)),
                    quantize24 fp (snd (barycentrics exampleDisplaced)))
                   (f32tof16 fp (displacement exampleDisplaced))
          \<and> DisplacedTriangleHit_init fp scenarioA packed = Some hit'
          \<and> barycentrics hit'
               = (dequantize24 fp (fst (DisplacedTriangleHit_unorms (packed ! 2) (packed ! 3))),
                  dequantize24 fp (snd (DisplacedTriangleHit_unorms (packed ! 2) (packed ! 3))))
          \<and> displacement hit' = f16tof32 fp (packed ! 3)"
    by (rule conjunct1)
  from layout have "case DisplacedTriangleHit_payload (4194304, 12582912) 15872 of (w2, w3) \<Rightarrow>
             drop_bit 8 w2 = 4194304
           \<and> w2 AND mask 8 = drop_bit 16 12582912
           \<and> drop_bit 16 w3 = 12582912 AND mask 16
           \<and> w3 AND mask 16 = 15872
           \<and> DisplacedTriangleHit_unorms w2 w3 = (4194304, 12582912)"
    by (rule conjunct2 [THEN conjunct2, THEN conjunct2])
  then have lay: "drop_bit 8 (1073742016 :: u32) = 4194304
     \<and> (1073742016 :: u32) AND mask 8 = drop_bit 16 12582912
     \<and> drop_bit 16 (15872 :: u32) = 12582912 AND mask 16
     \<and> (15872 :: u32) AND mask 16 = 15872
     \<and> DisplacedTriangleHit_unorms 1073742016 15872 = (4194304, 12582912)"
    unfolding pl prod.case .
  from ex lay a b x y h pl
  show "\<not> HIT_INFO_USE_COMPRESSION scenarioA
     \<and> SCENE_HAS_GEOMETRY_TYPE scenarioA GEOMETRY_TYPE_DISPLACED_TRIANGLE_MESH
     \<and> unat (4194304 :: u32) < 2 ^ 24 \<and> unat (12582912 :: u32) < 2 ^ 24
     \<and> unat (15872 :: u32) < 2 ^ 16
     \<and> DisplacedTriangleHit_payload (4194304, 12582912) 15872 = (1073742016, 15872)
     \<and> drop_bit 8 (1073742016 :: u32) = 4194304
     \<and> (1073742016 :: u32) AND mask 8 = drop_bit 16 12582912
     \<and> drop_bit 16 (15872 :: u32) = 12582912 AND mask 16
     \<and> (15872 :: u32) AND mask 16 = 15872
     \<and> DisplacedTriangleHit_unorms 1073742016 15872 = (4194304, 12582912)
     \<and> (\<exists>packed hit'.
            DisplacedTriangleHit_pack fp scenarioA exampleDisplaced = Some packed
          \<and> (packed ! 2, packed ! 3)
               = DisplacedTriangleHit_payload
                   (quantize24 fp (fst (barycentrics exampleDisplaced)),
                    quantize24 fp (snd (barycentrics exampleDisplaced)))
                   (f32tof16 fp (displacement exampleDisplaced))
          \<and> DisplacedTriangleHit_init fp scenarioA packed = Some hit'
          \<and> barycentrics hit'
               = (dequantize24 fp (fst (DisplacedTriangleHit_unorms (packed ! 2) (packed ! 3))),
                  dequantize24 fp (snd (DisplacedTriangleHit_unorms (packed ! 2) (packed ! 3))))
          \<and> displacement hit' = f16tof32 fp (packed ! 3))"
    by blast
qed

text \<open>
  For the 24-bit value y = 256 the high 16 bits of y are the number 1. Bits 7..0 of
  word 2 are 0: they hold the high 8 bits of y.
\<close>

theorem DisplacedTriangleHit_layout_counterexample:
  "unat (256 :: u32) < 2 ^ 24
   \<and> drop_bit 8 (256 :: u32) = 1
   \<and> fst (DisplacedTriangleHit_payload (0, 256) 0) AND mask 8 = 0
   \<and> fst (DisplacedTriangleHit_payload (0, 256) 0) AND mask 8 \<noteq> drop_bit 8 256"
  by (simp add: DisplacedTriangleHit_payload_def shl_def shr_def)

text \<open>
  What a volume hit keeps, on bit patterns. The distance t comes back bit for bit with
  and without compression. Without compression so does g; with compression, and a tag
  of at most 16 bits, g comes back as \<open>f16tof32\<close> of the low 16 bits of \<open>f32tof16(g)\<close>.
  How far that float is from g is a property of the two intrinsics.
\<close>

lemma VolumeHit_init_pack:
  assumes "HIT_INFO_USE_COMPRESSION c \<Longrightarrow> unat (kTypeBits c) \<le> 16"
  shows "(VolumeHit_pack fp c vh \<bind> VolumeHit_init fp c)
           = Some \<lparr>vol_t = vol_t vh,
                   vol_g = (if HIT_INFO_USE_COMPRESSION c
                            then f16tof32 fp (f32tof16 fp (vol_g vh) AND 65535)
                            else vol_g vh)\<rparr>"
proof (cases "HIT_INFO_USE_COMPRESSION c")
  case False
  then show ?thesis by (simp add: codec_defs asuint_def asfloat_def)
next
  case True
  with assms have t16: "unat (kTypeBits c) \<le> 16" by simp
  then have "kTypeBits c \<le> 32" by (simp add: word_le_nat_alt)
  then have off: "unat (kTypeOffset c) = 32 - unat (kTypeBits c)"
    by (simp add: kTypeOffset_def unat_sub)
  have low: "(push_bit (32 - unat (kTypeBits c)) ty OR (hb AND 65535)) AND 65535 = hb AND 65535"
    for ty hb :: u32
  proof -
    have m: "(65535 :: u32) = mask 16" by (simp add: mask_numeral)
    show ?thesis
      unfolding m using t16 by (intro bit_word_eqI) (auto simp add: bit_simps)
  qed
  from True show ?thesis
    by (simp add: codec_defs asuint_def asfloat_def shl_def off low)
qed

end
